theory Spec2Isabelle
  imports Main "HOL-Library.Word"
begin

unbundle bit_operations_syntax

section \<open>Machine integers and byte order\<close>

text \<open>
  The embedding follows \<^verbatim>\<open>os/various/lib_scsi.c\<close>. The C types \<^verbatim>\<open>uint8_t\<close>,
  \<^verbatim>\<open>uint16_t\<close> and \<^verbatim>\<open>uint32_t\<close> are words; \<^verbatim>\<open>size_t\<close> and \<^verbatim>\<open>unsigned int\<close> are 32 bits
  wide, as on the Cortex-M targets of the library, so an addition of a \<^verbatim>\<open>uint32_t\<close> and a
  promoted \<^verbatim>\<open>uint16_t\<close> is a 32-bit addition that wraps.
\<close>

type_synonym u8 = "8 word"
type_synonym u16 = "16 word"
type_synonym u32 = "32 word"

text \<open>
  \<^verbatim>\<open>memcpy\<close> between a byte buffer and an integer object copies the object representation.
  The host is little-endian (the source swaps after loading a big-endian wire field):
  the byte at the lowest address is the least significant one.
\<close>

definition load_le16 :: "u8 list \<Rightarrow> nat \<Rightarrow> u16" where
  "load_le16 m off = ucast (m ! off) OR push_bit 8 (ucast (m ! (off + 1)))"

definition load_le32 :: "u8 list \<Rightarrow> nat \<Rightarrow> u32" where
  "load_le32 m off =
     ucast (m ! off) OR push_bit 8 (ucast (m ! (off + 1)))
       OR push_bit 16 (ucast (m ! (off + 2))) OR push_bit 24 (ucast (m ! (off + 3)))"

definition store_le32 :: "u32 \<Rightarrow> u8 list" where
  "store_le32 v = [ucast v, ucast (drop_bit 8 v), ucast (drop_bit 16 v), ucast (drop_bit 24 v)]"

text \<open>\<^verbatim>\<open>swap_uint32\<close>, lines 58-61.\<close>

definition swap_uint32 :: "u32 \<Rightarrow> u32" where
  "swap_uint32 val =
     (let val = (push_bit 8 val AND 0xFF00FF00) OR (drop_bit 8 val AND 0x00FF00FF)
      in (push_bit 16 val AND 0xFFFF0000) OR (drop_bit 16 val AND 0x0000FFFF))"

text \<open>
  \<^verbatim>\<open>swap_uint16\<close>, lines 68-70. The operand is promoted to a 32-bit \<^verbatim>\<open>int\<close> (it is below
  \<open>2 ^ 16\<close>, so nothing overflows there) and the result is converted back to 16 bits.
\<close>

definition swap_uint16 :: "u16 \<Rightarrow> u16" where
  "swap_uint16 val =
     (let v = (ucast val :: u32)
      in ucast ((drop_bit 8 v AND 0xff) OR push_bit 8 (v AND 0xff)))"

text \<open>
  Big-endian wire order, in the words of the specification (``logical block address at
  offset 2 as 4 bytes big-endian, block count at offset 7 as 2 bytes big-endian''): the most
  significant byte comes first. The source has no encoder; these two are the reference
  the decoder and the capacity response are compared with.
\<close>

definition wire_be32 :: "u32 \<Rightarrow> u8 list" where
  "wire_be32 v = [ucast (drop_bit 24 v), ucast (drop_bit 16 v), ucast (drop_bit 8 v), ucast v]"

definition wire_be16 :: "u16 \<Rightarrow> u8 list" where
  "wire_be16 v = [ucast (drop_bit 8 v), ucast v]"

section \<open>The header \<^verbatim>\<open>lib_scsi.h\<close>\<close>

text \<open>
  The header is not part of the sources at hand. The macros and structure sizes that
  \<^verbatim>\<open>lib_scsi.c\<close> takes from it are a parameter of every function below, under the names
  the source uses.
\<close>

record lib_scsi_h =
  SCSI_CMD_INQUIRY :: u8
  SCSI_CMD_REQUEST_SENSE :: u8
  SCSI_CMD_READ_CAPACITY_10 :: u8
  SCSI_CMD_READ_10 :: u8
  SCSI_CMD_WRITE_10 :: u8
  SCSI_CMD_TEST_UNIT_READY :: u8
  SCSI_CMD_PREVENT_ALLOW_MEDIUM_REMOVAL :: u8
  SCSI_CMD_MODE_SENSE_6 :: u8
  SCSI_SENSE_KEY_GOOD :: u8
  SCSI_SENSE_KEY_ILLEGAL_REQUEST :: u8
  SCSI_ASENSE_NO_ADDITIONAL_INFORMATION :: u8
  SCSI_ASENSE_INVALID_COMMAND :: u8
  SCSI_ASENSE_INVALID_FIELD_IN_CDB :: u8
  SCSI_ASENSE_LBA_OUT_OF_RANGE :: u8
  SCSI_ASENSEQ_NO_QUALIFIER :: u8
  sizeof_scsi_sense_response_t :: nat
  sizeof_scsi_inquiry_response_t :: nat
  sizeof_scsi_mode_sense6_response_t :: nat

text \<open>
  What C itself demands of the header for \<^verbatim>\<open>lib_scsi.c\<close> to compile and to stay inside its
  structures: the \<^verbatim>\<open>case\<close> labels of \<^verbatim>\<open>scsiExecCmd\<close> are pairwise distinct, the sense
  structure has the bytes 0..13 that \<^verbatim>\<open>set_sense\<close> writes, and the mode-sense structure has
  the bytes 0..3 that \<^verbatim>\<open>mode_sense6\<close> writes.
\<close>

definition recognized_opcodes :: "lib_scsi_h \<Rightarrow> u8 list" where
  "recognized_opcodes H =
     [SCSI_CMD_INQUIRY H, SCSI_CMD_REQUEST_SENSE H, SCSI_CMD_READ_CAPACITY_10 H,
      SCSI_CMD_READ_10 H, SCSI_CMD_WRITE_10 H, SCSI_CMD_TEST_UNIT_READY H,
      SCSI_CMD_PREVENT_ALLOW_MEDIUM_REMOVAL H, SCSI_CMD_MODE_SENSE_6 H]"

definition header_ok :: "lib_scsi_h \<Rightarrow> bool" where
  "header_ok H \<longleftrightarrow>
     distinct (recognized_opcodes H) \<and>
     14 \<le> sizeof_scsi_sense_response_t H \<and>
     4 \<le> sizeof_scsi_mode_sense6_response_t H"

text \<open>
  The two status macros \<^verbatim>\<open>SCSI_SUCCESS\<close> and \<^verbatim>\<open>SCSI_FAILED\<close> (two different \<^verbatim>\<open>bool\<close>
  values in the header) are the two constructors of the status type.
\<close>

datatype scsi_status = SCSI_SUCCESS | SCSI_FAILED

datatype scsi_target_state_t = SCSI_TRGT_STOP | SCSI_TRGT_READY

section \<open>The collaborators: transport and block device\<close>

text \<open>
  Both are reached through function pointers (\<^verbatim>\<open>trp->transmit\<close>, \<^verbatim>\<open>tr->receive\<close>) and the
  block-device macros of the HAL (\<^verbatim>\<open>blkGetInfo\<close>, \<^verbatim>\<open>blkRead\<close>, \<^verbatim>\<open>blkWrite\<close>,
  \<^verbatim>\<open>blkIsWriteProtected\<close>). Their behaviour is arbitrary: each is a function of a state
  \<open>'w\<close> of the outside world that returns what the C call returns or writes through its
  pointer arguments, and the next state of the world.
  \<^item> \<open>transmit w data len\<close>: the number of bytes sent;
  \<^item> \<open>receive w buf len\<close>: the number of bytes received and the buffer afterwards;
  \<^item> \<open>blk_get_info w\<close>: the \<^verbatim>\<open>BlockDeviceInfo\<close> written to \<^verbatim>\<open>bdi\<close>;
  \<^item> \<open>blk_read w lba buf n\<close>: the result flag and the buffer afterwards;
  \<^item> \<open>blk_write w lba buf n\<close>: the result flag;
  \<^item> \<open>blk_is_write_protected w\<close>: the flag.
\<close>

record BlockDeviceInfo =
  blk_size :: u32
  blk_num :: u32

record 'w SCSITransport =
  transmit :: "'w \<Rightarrow> u8 list \<Rightarrow> u32 \<Rightarrow> u32 \<times> 'w"
  receive :: "'w \<Rightarrow> u8 list \<Rightarrow> u32 \<Rightarrow> u32 \<times> u8 list \<times> 'w"

record 'w BaseBlockDevice =
  blk_get_info :: "'w \<Rightarrow> BlockDeviceInfo \<times> 'w"
  blk_read :: "'w \<Rightarrow> u32 \<Rightarrow> u8 list \<Rightarrow> nat \<Rightarrow> bool \<times> u8 list \<times> 'w"
  blk_write :: "'w \<Rightarrow> u32 \<Rightarrow> u8 list \<Rightarrow> nat \<Rightarrow> bool \<times> 'w"
  blk_is_write_protected :: "'w \<Rightarrow> bool \<times> 'w"

text \<open>Every call that leaves the engine is recorded, with its arguments, in call order.\<close>

datatype call =
    Transmit "u8 list" u32
  | Receive u32
  | BlkGetInfo
  | BlkRead u32 nat
  | BlkWrite u32 "u8 list" nat
  | BlkIsWriteProtected

section \<open>The engine state\<close>

text \<open>
  \<^verbatim>\<open>SCSITargetConfig\<close> and \<^verbatim>\<open>SCSITarget\<close> as the source uses them. The pointer
  \<^verbatim>\<open>config\<close> is \<^verbatim>\<open>NULL\<close> (\<open>None\<close>) after \<^verbatim>\<open>scsiObjectInit\<close> and \<^verbatim>\<open>scsiStop\<close>. The sense
  and mode-sense structures are byte arrays.
\<close>

record 'w SCSITargetConfig =
  blkdev :: "'w BaseBlockDevice"
  transport :: "'w SCSITransport"
  inquiry_response :: "u8 list"

record 'w SCSITarget =
  state :: scsi_target_state_t
  sense :: "u8 list"
  mode_sense :: "u8 list"
  residue :: u32
  config :: "'w SCSITargetConfig option"

text \<open>
  What the code reaches besides the target structure: the outside world, the transfer
  buffer \<^verbatim>\<open>config->blkbuf\<close> points to, the log of calls made so far, and the indeterminate
  value the automatic variable \<^verbatim>\<open>tmp\<close> of \<^verbatim>\<open>request_sense\<close> holds before \<^verbatim>\<open>memcpy\<close>
  overwrites three of its four bytes.
\<close>

record 'w machine = "'w SCSITarget" +
  world :: 'w
  blkbuf :: "u8 list"
  calls :: "call list"
  uninit_tmp :: u32

text \<open>
  A dereference of the \<^verbatim>\<open>NULL\<close> configuration and a read beyond the end of the command
  buffer are undefined in C; the model stops with a fault there.
\<close>

datatype fault = NullConfig | CmdOutOfBounds

type_synonym 'w outcome = "fault + scsi_status \<times> 'w machine"

section \<open>Local functions of \<^verbatim>\<open>lib_scsi.c\<close>\<close>

record data_request_t =
  first_lba :: u32
  blk_cnt :: u16

text \<open>\<^verbatim>\<open>decode_data_request\<close>, lines 77-90: reads \<^verbatim>\<open>cmd[2..5]\<close> and \<^verbatim>\<open>cmd[7..8]\<close>.\<close>

definition decode_data_request :: "u8 list \<Rightarrow> fault + data_request_t" where
  "decode_data_request cmd =
     (if length cmd < 9 then Inl CmdOutOfBounds
      else
        let lba = load_le32 cmd 2;
            blk = load_le16 cmd 7
        in Inr \<lparr>first_lba = swap_uint32 lba, blk_cnt = swap_uint16 blk\<rparr>)"

text \<open>\<^verbatim>\<open>set_sense\<close>, lines 102-113: \<^verbatim>\<open>memset\<close> to zero, then five bytes.\<close>

definition set_sense :: "lib_scsi_h \<Rightarrow> 'w machine \<Rightarrow> u8 \<Rightarrow> u8 \<Rightarrow> u8 \<Rightarrow> 'w machine" where
  "set_sense H scsip key code qual =
     scsip\<lparr>sense :=
       (replicate (sizeof_scsi_sense_response_t H) 0)
         [0 := 0x70, 2 := key, 7 := 8, 12 := code, 13 := qual]\<rparr>"

text \<open>\<^verbatim>\<open>set_sense_ok\<close>, lines 122-126.\<close>

definition set_sense_ok :: "lib_scsi_h \<Rightarrow> 'w machine \<Rightarrow> 'w machine" where
  "set_sense_ok H scsip =
     set_sense H scsip (SCSI_SENSE_KEY_GOOD H)
       (SCSI_ASENSE_NO_ADDITIONAL_INFORMATION H) (SCSI_ASENSEQ_NO_QUALIFIER H)"

text \<open>\<^verbatim>\<open>transmit_data\<close>, lines 139-151. The subtraction is a 32-bit one.\<close>

definition transmit_data :: "'w machine \<Rightarrow> u8 list \<Rightarrow> u32 \<Rightarrow> 'w outcome" where
  "transmit_data scsip data len =
     (case config scsip of
        None \<Rightarrow> Inl NullConfig
      | Some cfg \<Rightarrow>
          let (sent, w) = transmit (transport cfg) (world scsip) data len;
              s = scsip\<lparr>world := w, calls := calls scsip @ [Transmit data len]\<rparr>;
              residue = len - sent
          in if residue > 0 then Inr (SCSI_FAILED, s\<lparr>residue := residue\<rparr>)
             else Inr (SCSI_SUCCESS, s))"

text \<open>\<^verbatim>\<open>cmd_unhandled\<close>, lines 157-164.\<close>

definition cmd_unhandled :: "lib_scsi_h \<Rightarrow> 'w machine \<Rightarrow> u8 list \<Rightarrow> 'w outcome" where
  "cmd_unhandled H scsip cmd =
     Inr (SCSI_FAILED,
          set_sense H scsip (SCSI_SENSE_KEY_ILLEGAL_REQUEST H)
            (SCSI_ASENSE_INVALID_COMMAND H) (SCSI_ASENSEQ_NO_QUALIFIER H))"

text \<open>\<^verbatim>\<open>cmd_ignored\<close>, lines 170-176.\<close>

definition cmd_ignored :: "lib_scsi_h \<Rightarrow> 'w machine \<Rightarrow> u8 list \<Rightarrow> 'w outcome" where
  "cmd_ignored H scsip cmd = Inr (SCSI_SUCCESS, set_sense_ok H scsip)"

text \<open>
  \<^verbatim>\<open>inquiry\<close>, lines 188-200. \<^verbatim>\<open>||\<close> reads \<^verbatim>\<open>cmd[2]\<close> only when the two low bits of
  \<^verbatim>\<open>cmd[1]\<close> are clear.
\<close>

definition inquiry :: "lib_scsi_h \<Rightarrow> 'w machine \<Rightarrow> u8 list \<Rightarrow> 'w outcome" where
  "inquiry H scsip cmd =
     (let invalid = Inr (SCSI_FAILED,
            set_sense H scsip (SCSI_SENSE_KEY_ILLEGAL_REQUEST H)
              (SCSI_ASENSE_INVALID_FIELD_IN_CDB H) (SCSI_ASENSEQ_NO_QUALIFIER H))
      in if length cmd < 2 then Inl CmdOutOfBounds
         else if (cmd ! 1) AND 3 \<noteq> 0 then invalid
         else if length cmd < 3 then Inl CmdOutOfBounds
         else if cmd ! 2 \<noteq> 0 then invalid
         else
           (case config scsip of
              None \<Rightarrow> Inl NullConfig
            | Some cfg \<Rightarrow>
                transmit_data scsip (inquiry_response cfg)
                  (of_nat (sizeof_scsi_inquiry_response_t H))))"

text \<open>
  \<^verbatim>\<open>request_sense\<close>, lines 212-227. \<^verbatim>\<open>memcpy(&tmp, &cmd[1], 3)\<close> fills the three low
  bytes of the uninitialised \<^verbatim>\<open>uint32_t tmp\<close>; its top byte keeps whatever it held.
  \<^verbatim>\<open>cmd[4]\<close> is read only when \<^verbatim>\<open>tmp\<close> is zero, and is compared as a \<^verbatim>\<open>size_t\<close>.
\<close>

definition request_sense :: "lib_scsi_h \<Rightarrow> 'w machine \<Rightarrow> u8 list \<Rightarrow> 'w outcome" where
  "request_sense H scsip cmd =
     (let invalid = Inr (SCSI_FAILED,
            set_sense H scsip (SCSI_SENSE_KEY_ILLEGAL_REQUEST H)
              (SCSI_ASENSE_INVALID_FIELD_IN_CDB H) (SCSI_ASENSEQ_NO_QUALIFIER H))
      in if length cmd < 4 then Inl CmdOutOfBounds
         else
           let tmp = (uninit_tmp scsip AND 0xFF000000)
                       OR ucast (cmd ! 1) OR push_bit 8 (ucast (cmd ! 2))
                       OR push_bit 16 (ucast (cmd ! 3))
           in if tmp \<noteq> 0 then invalid
              else if length cmd < 5 then Inl CmdOutOfBounds
              else if unat (cmd ! 4) \<noteq> sizeof_scsi_sense_response_t H then invalid
              else transmit_data scsip (sense scsip)
                     (of_nat (sizeof_scsi_sense_response_t H)))"

text \<open>\<^verbatim>\<open>mode_sense6\<close>, lines 239-254.\<close>

definition mode_sense6 :: "lib_scsi_h \<Rightarrow> 'w machine \<Rightarrow> u8 list \<Rightarrow> 'w outcome" where
  "mode_sense6 H scsip cmd =
     (case config scsip of
        None \<Rightarrow> Inl NullConfig
      | Some cfg \<Rightarrow>
          let s1 = scsip\<lparr>mode_sense :=
                     (mode_sense scsip)
                       [0 := of_nat (sizeof_scsi_mode_sense6_response_t H - 1), 1 := 0]\<rparr>;
              (wp, w) = blk_is_write_protected (blkdev cfg) (world s1);
              s2 = s1\<lparr>world := w, calls := calls s1 @ [BlkIsWriteProtected]\<rparr>;
              s3 = (if wp then s2\<lparr>mode_sense := (mode_sense s2)[2 := push_bit 7 1]\<rparr>
                    else s2\<lparr>mode_sense := (mode_sense s2)[2 := 0]\<rparr>);
              s4 = s3\<lparr>mode_sense := (mode_sense s3)[3 := 0]\<rparr>
          in transmit_data s4 (mode_sense s4)
               (of_nat (sizeof_scsi_mode_sense6_response_t H)))"

text \<open>
  Modelled from the spec: the layout of \<^verbatim>\<open>scsi_read_capacity10_response_t\<close>, declared in
  the absent header. The specification gives it as 8 bytes, the last valid block address
  first and the block size second, four bytes each. The two fields are \<^verbatim>\<open>uint32_t\<close>
  objects in the memory of the little-endian host.
\<close>

definition scsi_read_capacity10_response_t :: "u32 \<Rightarrow> u32 \<Rightarrow> u8 list" where
  "scsi_read_capacity10_response_t last_block_addr block_size =
     store_le32 last_block_addr @ store_le32 block_size"

definition sizeof_scsi_read_capacity10_response_t :: nat where
  "sizeof_scsi_read_capacity10_response_t = 8"

text \<open>\<^verbatim>\<open>read_capacity10\<close>, lines 266-278. \<^verbatim>\<open>bdi.blk_num - 1\<close> is a 32-bit subtraction.\<close>

definition read_capacity10 :: "lib_scsi_h \<Rightarrow> 'w machine \<Rightarrow> u8 list \<Rightarrow> 'w outcome" where
  "read_capacity10 H scsip cmd =
     (case config scsip of
        None \<Rightarrow> Inl NullConfig
      | Some cfg \<Rightarrow>
          let (bdi, w) = blk_get_info (blkdev cfg) (world scsip);
              s = scsip\<lparr>world := w, calls := calls scsip @ [BlkGetInfo]\<rparr>;
              ret_block_size = swap_uint32 (blk_size bdi);
              ret_last_block_addr = swap_uint32 (blk_num bdi - 1)
          in transmit_data s
               (scsi_read_capacity10_response_t ret_last_block_addr ret_block_size)
               (of_nat sizeof_scsi_read_capacity10_response_t))"

text \<open>
  \<^verbatim>\<open>data_overflow\<close>, lines 292-306. \<^verbatim>\<open>req->blk_cnt\<close> is converted to 32 bits and the sum
  \<^verbatim>\<open>req->first_lba + req->blk_cnt\<close> is taken in 32 bits before the comparison.
\<close>

definition data_overflow :: "lib_scsi_h \<Rightarrow> 'w machine \<Rightarrow> data_request_t \<Rightarrow> fault + bool \<times> 'w machine" where
  "data_overflow H scsip req =
     (case config scsip of
        None \<Rightarrow> Inl NullConfig
      | Some cfg \<Rightarrow>
          let (bdi, w) = blk_get_info (blkdev cfg) (world scsip);
              s = scsip\<lparr>world := w, calls := calls scsip @ [BlkGetInfo]\<rparr>
          in if first_lba req + ucast (blk_cnt req) > blk_num bdi
             then Inr (True,
                    set_sense H s (SCSI_SENSE_KEY_ILLEGAL_REQUEST H)
                      (SCSI_ASENSE_LBA_OUT_OF_RANGE H) (SCSI_ASENSEQ_NO_QUALIFIER H))
             else Inr (False, s))"

text \<open>
  The body of the \<^verbatim>\<open>for\<close> loop of \<^verbatim>\<open>data_read_write10\<close>, lines 334-343, at index \<open>i\<close>.
  The results of the four calls are dropped, as in the source.
\<close>

definition transfer_block ::
  "lib_scsi_h \<Rightarrow> 'w SCSITargetConfig \<Rightarrow> u8 list \<Rightarrow> data_request_t \<Rightarrow> u32 \<Rightarrow> nat
     \<Rightarrow> 'w machine \<Rightarrow> 'w machine" where
  "transfer_block H cfg cmd req bs i scsip =
     (let lba = first_lba req + of_nat i in
      if cmd ! 0 = SCSI_CMD_READ_10 H then
        let (ok, buf, w1) = blk_read (blkdev cfg) (world scsip) lba (blkbuf scsip) 1;
            (sent, w2) = transmit (transport cfg) w1 buf bs
        in scsip\<lparr>world := w2, blkbuf := buf,
                 calls := calls scsip @ [BlkRead lba 1, Transmit buf bs]\<rparr>
      else
        let (got, buf, w1) = receive (transport cfg) (world scsip) (blkbuf scsip) bs;
            (ok, w2) = blk_write (blkdev cfg) w1 lba buf 1
        in scsip\<lparr>world := w2, blkbuf := buf,
                 calls := calls scsip @ [Receive bs, BlkWrite lba buf 1]\<rparr>)"

text \<open>The loop \<^verbatim>\<open>for (size_t i=0; i<req.blk_cnt; i++)\<close>, from index \<open>i\<close> on.\<close>

function transfer_loop ::
  "lib_scsi_h \<Rightarrow> 'w SCSITargetConfig \<Rightarrow> u8 list \<Rightarrow> data_request_t \<Rightarrow> u32 \<Rightarrow> nat
     \<Rightarrow> 'w machine \<Rightarrow> 'w machine" where
  "transfer_loop H cfg cmd req bs i scsip =
     (if i < unat (blk_cnt req)
      then transfer_loop H cfg cmd req bs (Suc i) (transfer_block H cfg cmd req bs i scsip)
      else scsip)"
  by pat_completeness auto
termination
  by (relation "measure (\<lambda>(H, cfg, cmd, req, bs, i, scsip). unat (blk_cnt req) - i)") auto

declare transfer_loop.simps [simp del]

text \<open>\<^verbatim>\<open>data_read_write10\<close>, lines 318-347.\<close>

definition data_read_write10 :: "lib_scsi_h \<Rightarrow> 'w machine \<Rightarrow> u8 list \<Rightarrow> 'w outcome" where
  "data_read_write10 H scsip cmd =
     (case decode_data_request cmd of
        Inl f \<Rightarrow> Inl f
      | Inr req \<Rightarrow>
          (case data_overflow H scsip req of
             Inl f \<Rightarrow> Inl f
           | Inr (overflow, s1) \<Rightarrow>
               if overflow then Inr (SCSI_FAILED, s1)
               else
                 (case config s1 of
                    None \<Rightarrow> Inl NullConfig
                  | Some cfg \<Rightarrow>
                      let (bdi, w) = blk_get_info (blkdev cfg) (world s1);
                          s2 = s1\<lparr>world := w, calls := calls s1 @ [BlkGetInfo]\<rparr>;
                          bs = blk_size bdi
                      in Inr (SCSI_SUCCESS, transfer_loop H cfg cmd req bs 0 s2))))"

section \<open>Exported functions\<close>

text \<open>
  \<^verbatim>\<open>scsiExecCmd\<close>, lines 366-408. The \<^verbatim>\<open>switch\<close> is the chain of comparisons in the order
  of its \<^verbatim>\<open>case\<close> labels.
\<close>

definition scsiExecCmd :: "lib_scsi_h \<Rightarrow> 'w machine \<Rightarrow> u8 list \<Rightarrow> 'w outcome" where
  "scsiExecCmd H scsip cmd =
     (let s = set_sense_ok H scsip in
      case cmd of
        [] \<Rightarrow> Inl CmdOutOfBounds
      | opcode # _ \<Rightarrow>
          if opcode = SCSI_CMD_INQUIRY H then inquiry H s cmd
          else if opcode = SCSI_CMD_REQUEST_SENSE H then request_sense H s cmd
          else if opcode = SCSI_CMD_READ_CAPACITY_10 H then read_capacity10 H s cmd
          else if opcode = SCSI_CMD_READ_10 H then data_read_write10 H s cmd
          else if opcode = SCSI_CMD_WRITE_10 H then data_read_write10 H s cmd
          else if opcode = SCSI_CMD_TEST_UNIT_READY H then cmd_ignored H s cmd
          else if opcode = SCSI_CMD_PREVENT_ALLOW_MEDIUM_REMOVAL H then cmd_ignored H s cmd
          else if opcode = SCSI_CMD_MODE_SENSE_6 H then mode_sense6 H s cmd
          else cmd_unhandled H s cmd)"

text \<open>\<^verbatim>\<open>scsiObjectInit\<close>, \<^verbatim>\<open>scsiStart\<close>, \<^verbatim>\<open>scsiStop\<close> and \<^verbatim>\<open>scsiResidue\<close>, lines 417-464.\<close>

definition scsiObjectInit :: "lib_scsi_h \<Rightarrow> 'w machine \<Rightarrow> 'w machine" where
  "scsiObjectInit H scsip =
     scsip\<lparr>config := None, residue := 0,
           sense := replicate (sizeof_scsi_sense_response_t H) 0,
           state := SCSI_TRGT_STOP\<rparr>"

definition scsiStart :: "'w machine \<Rightarrow> 'w SCSITargetConfig \<Rightarrow> 'w machine" where
  "scsiStart scsip cfg = scsip\<lparr>config := Some cfg, state := SCSI_TRGT_READY\<rparr>"

definition scsiStop :: "'w machine \<Rightarrow> 'w machine" where
  "scsiStop scsip = scsip\<lparr>config := None, state := SCSI_TRGT_STOP\<rparr>"

definition scsiResidue :: "'w machine \<Rightarrow> u32" where
  "scsiResidue scsip = residue scsip"

section \<open>Observations\<close>

text \<open>
  The sense response in the words of the specification: byte 0 is 0x70, byte 2 the sense
  key, byte 7 is 8, byte 12 the additional sense code, byte 13 the qualifier, and every
  other byte is zero. The sense condition of a sense structure is the triple of key, code
  and qualifier read back from these offsets.
\<close>

definition sense_layout :: "nat \<Rightarrow> u8 \<Rightarrow> u8 \<Rightarrow> u8 \<Rightarrow> u8 list" where
  "sense_layout n key code qual =
     map (\<lambda>i. if i = 0 then 0x70 else if i = 2 then key else if i = 7 then 8
               else if i = 12 then code else if i = 13 then qual else 0) [0..<n]"

definition sense_condition :: "u8 list \<Rightarrow> u8 \<times> u8 \<times> u8" where
  "sense_condition bytes = (bytes ! 2, bytes ! 12, bytes ! 13)"

text \<open>The canonical success condition, the triple \<^verbatim>\<open>set_sense_ok\<close> writes.\<close>

definition sense_ok :: "lib_scsi_h \<Rightarrow> u8 \<times> u8 \<times> u8" where
  "sense_ok H =
     (SCSI_SENSE_KEY_GOOD H, SCSI_ASENSE_NO_ADDITIONAL_INFORMATION H,
      SCSI_ASENSEQ_NO_QUALIFIER H)"

text \<open>What a caller sees of an outcome: the status, the call log and the sense structure.\<close>

definition outcome_status :: "'w outcome \<Rightarrow> scsi_status option" where
  "outcome_status r = (case r of Inl f \<Rightarrow> None | Inr (st, s) \<Rightarrow> Some st)"

definition outcome_calls :: "'w outcome \<Rightarrow> call list" where
  "outcome_calls r = (case r of Inl f \<Rightarrow> [] | Inr (st, s) \<Rightarrow> calls s)"

definition outcome_sense :: "'w outcome \<Rightarrow> u8 list" where
  "outcome_sense r = (case r of Inl f \<Rightarrow> [] | Inr (st, s) \<Rightarrow> sense s)"

text \<open>
  Of a call log: the block addresses of the \<^verbatim>\<open>blkRead\<close> and \<^verbatim>\<open>blkWrite\<close> calls in call
  order, and the number of \<^verbatim>\<open>transmit\<close> and \<^verbatim>\<open>receive\<close> calls.
\<close>

fun block_calls :: "call list \<Rightarrow> u32 list" where
  "block_calls [] = []"
| "block_calls (BlkRead lba n # cs) = lba # block_calls cs"
| "block_calls (BlkWrite lba buf n # cs) = lba # block_calls cs"
| "block_calls (c # cs) = block_calls cs"

fun transport_calls :: "call list \<Rightarrow> nat" where
  "transport_calls [] = 0"
| "transport_calls (Transmit data len # cs) = Suc (transport_calls cs)"
| "transport_calls (Receive len # cs) = Suc (transport_calls cs)"
| "transport_calls (c # cs) = transport_calls cs"

section \<open>A concrete header and stub collaborators\<close>

text \<open>
  For the examples: the opcodes and sense values of the SCSI standard, with an 18-byte
  sense structure, a 36-byte inquiry response and a 4-byte mode-sense response.
\<close>

definition scsi_h_std :: lib_scsi_h where
  "scsi_h_std =
     \<lparr>SCSI_CMD_INQUIRY = 0x12, SCSI_CMD_REQUEST_SENSE = 0x03,
      SCSI_CMD_READ_CAPACITY_10 = 0x25, SCSI_CMD_READ_10 = 0x28, SCSI_CMD_WRITE_10 = 0x2A,
      SCSI_CMD_TEST_UNIT_READY = 0x00, SCSI_CMD_PREVENT_ALLOW_MEDIUM_REMOVAL = 0x1E,
      SCSI_CMD_MODE_SENSE_6 = 0x1A,
      SCSI_SENSE_KEY_GOOD = 0x00, SCSI_SENSE_KEY_ILLEGAL_REQUEST = 0x05,
      SCSI_ASENSE_NO_ADDITIONAL_INFORMATION = 0x00, SCSI_ASENSE_INVALID_COMMAND = 0x20,
      SCSI_ASENSE_INVALID_FIELD_IN_CDB = 0x24, SCSI_ASENSE_LBA_OUT_OF_RANGE = 0x21,
      SCSI_ASENSEQ_NO_QUALIFIER = 0x00,
      sizeof_scsi_sense_response_t = 18, sizeof_scsi_inquiry_response_t = 36,
      sizeof_scsi_mode_sense6_response_t = 4\<rparr>"

text \<open>
  A block device that reports a fixed geometry, leaves the buffer as it is and returns
  the flag \<open>ok\<close> from every read and write; a transport that moves at most \<open>cap\<close> bytes per
  call. The outside world has no state of its own.
\<close>

definition stub_blkdev :: "BlockDeviceInfo \<Rightarrow> bool \<Rightarrow> unit BaseBlockDevice" where
  "stub_blkdev info ok =
     \<lparr>blk_get_info = (\<lambda>w. (info, w)),
      blk_read = (\<lambda>w lba buf n. (ok, buf, w)),
      blk_write = (\<lambda>w lba buf n. (ok, w)),
      blk_is_write_protected = (\<lambda>w. (False, w))\<rparr>"

definition stub_transport :: "u32 \<Rightarrow> unit SCSITransport" where
  "stub_transport cap =
     \<lparr>transmit = (\<lambda>w data len. (if len \<le> cap then len else cap, w)),
      receive = (\<lambda>w buf len. (if len \<le> cap then len else cap, buf, w))\<rparr>"

definition stub_config :: "BlockDeviceInfo \<Rightarrow> bool \<Rightarrow> u32 \<Rightarrow> u8 list \<Rightarrow> unit SCSITargetConfig" where
  "stub_config info ok cap payload =
     \<lparr>blkdev = stub_blkdev info ok, transport = stub_transport cap,
      inquiry_response = payload\<rparr>"

text \<open>The engine after \<^verbatim>\<open>scsiObjectInit\<close> and \<^verbatim>\<open>scsiStart\<close>, with no call made yet.\<close>

definition stub_machine :: "lib_scsi_h \<Rightarrow> unit SCSITargetConfig \<Rightarrow> unit machine" where
  "stub_machine H cfg =
     scsiStart
       (scsiObjectInit H
          \<lparr>state = SCSI_TRGT_STOP, sense = [],
           mode_sense = replicate (sizeof_scsi_mode_sense6_response_t H) 0,
           residue = 0, config = None, world = (), blkbuf = [], calls = [],
           uninit_tmp = 0\<rparr>)
       cfg"

section \<open>Byte order\<close>

lemma lt16_cases:
  "n < (16::nat) \<Longrightarrow> n \<in> {0,1,2,3,4,5,6,7,8,9,10,11,12,13,14,15}"
  by simp arith

lemma lt32_cases:
  "n < (32::nat) \<Longrightarrow> n \<in> {0,1,2,3,4,5,6,7,8,9,10,11,12,13,14,15,16,17,18,19,20,21,22,23,
      24,25,26,27,28,29,30,31}"
  by simp arith

lemma u16_eqI:
  fixes a b :: u16
  assumes "\<And>n. n \<in> {0,1,2,3,4,5,6,7,8,9,10,11,12,13,14,15} \<Longrightarrow> bit a n = bit b n"
  shows "a = b"
proof (rule bit_word_eqI)
  fix n assume "n < LENGTH(16)"
  then have "n < 16" by simp
  from lt16_cases[OF this] show "bit a n = bit b n" by (rule assms)
qed

lemma u32_eqI:
  fixes a b :: u32
  assumes "\<And>n. n \<in> {0,1,2,3,4,5,6,7,8,9,10,11,12,13,14,15,16,17,18,19,20,21,22,23,
      24,25,26,27,28,29,30,31} \<Longrightarrow> bit a n = bit b n"
  shows "a = b"
proof (rule bit_word_eqI)
  fix n assume "n < LENGTH(32)"
  then have "n < 32" by simp
  from lt32_cases[OF this] show "bit a n = bit b n" by (rule assms)
qed

lemma hex_FF00FF00: "(0xFF00FF00 :: u32) = push_bit 8 (mask 8) OR push_bit 24 (mask 8)"
  by (simp add: mask_eq_exp_minus_1)
lemma hex_00FF00FF: "(0x00FF00FF :: u32) = mask 8 OR push_bit 16 (mask 8)"
  by (simp add: mask_eq_exp_minus_1)
lemma hex_FFFF0000: "(0xFFFF0000 :: u32) = push_bit 16 (mask 16)"
  by (simp add: mask_eq_exp_minus_1)
lemma hex_FFFF: "(0xFFFF :: u32) = mask 16"
  by (simp add: mask_eq_exp_minus_1)
lemma hex_FF: "(0xFF :: u32) = mask 8"
  by (simp add: mask_eq_exp_minus_1)

lemmas swap_masks = hex_FF00FF00 hex_00FF00FF hex_FFFF0000 hex_FFFF hex_FF

lemma swap_uint16_involution: "swap_uint16 (swap_uint16 v) = v"
  unfolding swap_uint16_def Let_def hex_FF
  apply (rule u16_eqI)
  apply (simp only: insert_iff empty_iff)
  apply (elim disjE FalseE; simp add: bit_simps)
  done

lemma swap_uint32_involution: "swap_uint32 (swap_uint32 v) = v"
  unfolding swap_uint32_def Let_def swap_masks
  apply (rule u32_eqI)
  apply (simp only: insert_iff empty_iff)
  apply (elim disjE FalseE; simp add: bit_simps)
  done

lemma load_le32_wire: "load_le32 (wire_be32 v) 0 = swap_uint32 v"
  unfolding load_le32_def wire_be32_def swap_uint32_def Let_def swap_masks
  apply (rule u32_eqI)
  apply (simp only: insert_iff empty_iff)
  apply (elim disjE FalseE; simp add: bit_simps)
  done

lemma load_le16_wire: "load_le16 (wire_be16 v) 0 = swap_uint16 v"
  unfolding load_le16_def wire_be16_def swap_uint16_def Let_def hex_FF
  apply (rule u16_eqI)
  apply (simp only: insert_iff empty_iff)
  apply (elim disjE FalseE; simp add: bit_simps)
  done



lemma load_le32_skip2: "load_le32 (x0 # x1 # xs) 2 = load_le32 xs 0"
  by (simp add: load_le32_def numeral_2_eq_2)

lemma load_le16_skip7: "load_le16 (x0 # x1 # x2 # x3 # x4 # x5 # x6 # xs) 7 = load_le16 xs 0"
  by (simp add: load_le16_def)

lemma load_le32_append: "load_le32 (wire_be32 v @ post) 0 = load_le32 (wire_be32 v) 0"
  by (simp add: load_le32_def wire_be32_def)

lemma load_le16_append: "load_le16 (wire_be16 v @ post) 0 = load_le16 (wire_be16 v) 0"
  by (simp add: load_le16_def wire_be16_def)

lemma decode_wire:
  "decode_data_request ([opcode, c1] @ wire_be32 lba @ [c6] @ wire_be16 blk @ rest)
     = Inr \<lparr>first_lba = lba, blk_cnt = blk\<rparr>"
proof -
  obtain a b c d where w32: "wire_be32 lba = [a, b, c, d]"
    by (simp add: wire_be32_def)
  have a: "load_le32 ([opcode, c1] @ wire_be32 lba @ [c6] @ wire_be16 blk @ rest) 2
             = swap_uint32 lba"
    by (simp add: load_le32_skip2 load_le32_append load_le32_wire)
  have b: "load_le16 ([opcode, c1] @ wire_be32 lba @ [c6] @ wire_be16 blk @ rest) 7
             = swap_uint16 blk"
    unfolding w32 
    by (simp add: load_le16_skip7 load_le16_append load_le16_wire)
  have len: "\<not> length ([opcode, c1] @ wire_be32 lba @ [c6] @ wire_be16 blk @ rest) < 9"
    by (simp add: wire_be32_def wire_be16_def)
  show ?thesis
    unfolding decode_data_request_def Let_def a b 
    using len by (simp add: swap_uint32_involution swap_uint16_involution)
qed


text \<open>
  Claim C3. A logical block address and a block count written in big-endian wire order at
  offsets 2 and 7 of a command buffer are what \<^verbatim>\<open>decode_data_request\<close> returns, whatever
  the other bytes of the buffer are; and \<^verbatim>\<open>swap_uint32\<close> and \<^verbatim>\<open>swap_uint16\<close> applied twice
  give back their argument.
\<close>

theorem decode_data_request_roundtrip:
  "decode_data_request ([opcode, c1] @ wire_be32 lba @ [c6] @ wire_be16 blk @ rest)
     = Inr \<lparr>first_lba = lba, blk_cnt = blk\<rparr>
   \<and> swap_uint32 (swap_uint32 lba) = lba
   \<and> swap_uint16 (swap_uint16 blk) = blk"
  by (simp only: decode_wire swap_uint32_involution swap_uint16_involution simp_thms)

section \<open>Sense state\<close>

text \<open>\<^verbatim>\<open>set_sense\<close> writes the sense layout of the specification and nothing else.\<close>

lemma set_sense_eq:
  "set_sense H s k c q = s\<lparr>sense := sense_layout (sizeof_scsi_sense_response_t H) k c q\<rparr>"
proof -
  have "(replicate n (0::u8))[0 := 0x70, 2 := k, 7 := 8, 12 := c, 13 := q]
          = sense_layout n k c q" for n
    by (rule nth_equalityI) (auto simp: sense_layout_def nth_list_update)
  then show ?thesis by (simp add: set_sense_def)
qed

lemma sense_condition_layout:
  "14 \<le> n \<Longrightarrow> sense_condition (sense_layout n k c q) = (k, c, q)"
  by (simp add: sense_condition_def sense_layout_def)

lemma sense_layout_18:
  "sense_layout 18 k c q = [0x70, 0, k, 0, 0, 0, 0, 8, 0, 0, 0, 0, c, q, 0, 0, 0, 0]"
  by (simp add: sense_layout_def upt_rec)

lemma header_ok_std: "header_ok scsi_h_std"
  by (simp add: header_ok_def recognized_opcodes_def scsi_h_std_def)

lemmas stub_defs = stub_machine_def stub_config_def stub_blkdev_def stub_transport_def
  scsiStart_def scsiObjectInit_def scsi_h_std_def

section \<open>Unrecognized opcodes\<close>

text \<open>
  Claim C5. When byte 0 of the command buffer is none of the eight opcodes of the
  \<^verbatim>\<open>switch\<close>, \<^verbatim>\<open>scsiExecCmd\<close> returns \<^verbatim>\<open>SCSI_FAILED\<close> and the sense structure afterwards is
  the sense layout for illegal request / invalid command, whatever the sense structure was
  before; nothing else of the engine changes. With a sense structure of at least 14 bytes
  the sense condition read back is that triple.
\<close>

theorem unhandled_opcode:
  assumes "opcode \<notin> set (recognized_opcodes H)"
  shows "scsiExecCmd H scsip (opcode # rest) =
           Inr (SCSI_FAILED,
                scsip\<lparr>sense := sense_layout (sizeof_scsi_sense_response_t H)
                  (SCSI_SENSE_KEY_ILLEGAL_REQUEST H)
                  (SCSI_ASENSE_INVALID_COMMAND H) (SCSI_ASENSEQ_NO_QUALIFIER H)\<rparr>)
       \<and> (14 \<le> sizeof_scsi_sense_response_t H \<longrightarrow>
            sense_condition (sense_layout (sizeof_scsi_sense_response_t H)
                  (SCSI_SENSE_KEY_ILLEGAL_REQUEST H)
                  (SCSI_ASENSE_INVALID_COMMAND H) (SCSI_ASENSEQ_NO_QUALIFIER H))
              = (SCSI_SENSE_KEY_ILLEGAL_REQUEST H, SCSI_ASENSE_INVALID_COMMAND H,
                 SCSI_ASENSEQ_NO_QUALIFIER H))"
  using assms
  by (simp add: scsiExecCmd_def recognized_opcodes_def cmd_unhandled_def set_sense_ok_def
      set_sense_eq sense_condition_layout)

theorem unhandled_opcode_witness:
  "0xFF \<notin> set (recognized_opcodes scsi_h_std) \<and>
   scsiExecCmd scsi_h_std
       (stub_machine scsi_h_std (stub_config \<lparr>blk_size = 512, blk_num = 1000\<rparr> True 512 []))
       [0xFF, 0, 0, 0, 0, 0]
     = Inr (SCSI_FAILED,
            (stub_machine scsi_h_std (stub_config \<lparr>blk_size = 512, blk_num = 1000\<rparr> True 512 []))
              \<lparr>sense := [0x70, 0, 5, 0, 0, 0, 0, 8, 0, 0, 0, 0, 0x20, 0, 0, 0, 0, 0]\<rparr>)
   \<and> sense_condition [0x70, 0, 5, 0, 0, 0, 0, 8, 0, 0, 0, 0, 0x20, 0, 0, 0, 0, 0]
        = (5, 0x20, 0)"
proof -
  have h: "0xFF \<notin> set (recognized_opcodes scsi_h_std)"
    by (simp add: recognized_opcodes_def scsi_h_std_def)
  have n: "sizeof_scsi_sense_response_t scsi_h_std = 18"
      "SCSI_SENSE_KEY_ILLEGAL_REQUEST scsi_h_std = 5"
      "SCSI_ASENSE_INVALID_COMMAND scsi_h_std = 0x20"
      "SCSI_ASENSEQ_NO_QUALIFIER scsi_h_std = 0"
    by (simp_all add: scsi_h_std_def)
  show ?thesis
    using h unhandled_opcode [OF h,
        of "stub_machine scsi_h_std (stub_config \<lparr>blk_size = 512, blk_num = 1000\<rparr> True 512 [])"
           "[0, 0, 0, 0, 0]"]
    by (simp add: n sense_layout_18)
qed

section \<open>The transmit wrapper\<close>

lemma word_residue_pos: "0 < len - sent \<longleftrightarrow> sent \<noteq> len" for len sent :: u32
  by (auto simp: word_greater_zero_iff)

text \<open>
  Claim C4. \<^verbatim>\<open>transmit_data\<close> computes the 32-bit difference between the requested length
  and the count the transport returns. When the count differs from the length the
  difference is positive, it is stored in the residue field and the result is
  \<^verbatim>\<open>SCSI_FAILED\<close>; when the transport moved the full length the residue field keeps its
  value and the result is \<^verbatim>\<open>SCSI_SUCCESS\<close>. When the count does not exceed the length, the
  stored residue is the shortfall as a number.
\<close>

theorem transmit_data_residue:
  assumes "config scsip = Some cfg"
    and "transmit (transport cfg) (world scsip) data len = (sent, w)"
  shows "(sent \<noteq> len \<longrightarrow>
            0 < len - sent \<and>
            transmit_data scsip data len =
              Inr (SCSI_FAILED,
                   scsip\<lparr>world := w, calls := calls scsip @ [Transmit data len],
                         residue := len - sent\<rparr>))
       \<and> (sent = len \<longrightarrow>
            transmit_data scsip data len =
              Inr (SCSI_SUCCESS,
                   scsip\<lparr>world := w, calls := calls scsip @ [Transmit data len]\<rparr>))
       \<and> (sent \<le> len \<longrightarrow> unat (len - sent) = unat len - unat sent)"
  using assms
  by (simp add: transmit_data_def word_residue_pos unat_sub)

theorem transmit_data_residue_witness:
  "transmit_data (stub_machine scsi_h_std (stub_config \<lparr>blk_size = 512, blk_num = 1000\<rparr> True 10 [])) [1, 2, 3] 36
     = Inr (SCSI_FAILED,
            (stub_machine scsi_h_std (stub_config \<lparr>blk_size = 512, blk_num = 1000\<rparr> True 10 []))
              \<lparr>calls := [Transmit [1, 2, 3] 36], residue := 26\<rparr>)
   \<and> transmit_data (stub_machine scsi_h_std (stub_config \<lparr>blk_size = 512, blk_num = 1000\<rparr> True 64 [])) [1, 2, 3] 36
     = Inr (SCSI_SUCCESS,
            (stub_machine scsi_h_std (stub_config \<lparr>blk_size = 512, blk_num = 1000\<rparr> True 64 []))
              \<lparr>calls := [Transmit [1, 2, 3] 36]\<rparr>)"
  using transmit_data_residue [of "stub_machine scsi_h_std (stub_config \<lparr>blk_size = 512, blk_num = 1000\<rparr> True 10 [])"
          "stub_config \<lparr>blk_size = 512, blk_num = 1000\<rparr> True 10 []" "[1, 2, 3]" 36 10 "()"]
        transmit_data_residue [of "stub_machine scsi_h_std (stub_config \<lparr>blk_size = 512, blk_num = 1000\<rparr> True 64 [])"
          "stub_config \<lparr>blk_size = 512, blk_num = 1000\<rparr> True 64 []" "[1, 2, 3]" 36 36 "()"]
  by (simp add: stub_defs)

text \<open>The wrapper in one equation, and what every caller can rely on.\<close>

lemma transmit_data_eq:
  assumes "config s = Some cfg"
    and "transmit (transport cfg) (world s) data len = (sent, w)"
  shows "transmit_data s data len =
           (if sent = len
            then Inr (SCSI_SUCCESS, s\<lparr>world := w, calls := calls s @ [Transmit data len]\<rparr>)
            else Inr (SCSI_FAILED,
                   s\<lparr>world := w, calls := calls s @ [Transmit data len],
                     residue := len - sent\<rparr>))"
  using assms by (simp add: transmit_data_def word_residue_pos)

lemma transmit_data_calls:
  assumes "config s = Some cfg"
  shows "\<exists>st s'. transmit_data s data len = Inr (st, s')
           \<and> calls s' = calls s @ [Transmit data len]
           \<and> sense s' = sense s"
proof -
  obtain sent w where t: "transmit (transport cfg) (world s) data len = (sent, w)"
    by (cases "transmit (transport cfg) (world s) data len")
  show ?thesis
    by (simp add: transmit_data_eq [OF assms t])
qed

lemma transmit_data_failed:
  assumes "transmit_data t data len = Inr (SCSI_FAILED, s')"
  shows "\<exists>cfg sent. config t = Some cfg
           \<and> transmit (transport cfg) (world t) data len = (sent, world s')
           \<and> sent \<noteq> len \<and> residue s' = len - sent \<and> 0 < residue s'
           \<and> sense s' = sense t \<and> calls s' = calls t @ [Transmit data len]"
  using assms
  by (auto simp: transmit_data_def Let_def word_residue_pos
      split: option.splits prod.splits if_splits)

text \<open>
  A failure of the wrapper seen from a state \<open>s\<close> before it, when the calls \<open>mid\<close> have
  been made in between and the sense structure and the configuration are those of \<open>s\<close>.
\<close>

lemma transmit_data_shortfall:
  assumes "transmit_data t data len = Inr (SCSI_FAILED, s')"
    and "config t = config s" and "sense t = sense s" and "calls t = calls s @ mid"
  shows "sense s' = sense s
       \<and> (\<exists>cfg mid data len sent w0.
             config s = Some cfg
           \<and> calls s' = calls s @ mid @ [Transmit data len]
           \<and> transmit (transport cfg) w0 data len = (sent, world s')
           \<and> sent \<noteq> len \<and> residue s' = len - sent \<and> 0 < residue s')"
proof -
  from transmit_data_failed [OF assms(1)] obtain cfg sent where f:
    "config t = Some cfg" "transmit (transport cfg) (world t) data len = (sent, world s')"
    "sent \<noteq> len" "residue s' = len - sent" "0 < residue s'"
    "sense s' = sense t" "calls s' = calls t @ [Transmit data len]"
    by blast
  have a: "config s = Some cfg" "calls s' = calls s @ mid @ [Transmit data len]"
    using f assms by simp_all
  have "sense s' = sense s" using f assms by simp
  moreover have "\<exists>cfg mid data len sent w0.
             config s = Some cfg
           \<and> calls s' = calls s @ mid @ [Transmit data len]
           \<and> transmit (transport cfg) w0 data len = (sent, world s')
           \<and> sent \<noteq> len \<and> residue s' = len - sent \<and> 0 < residue s'"
    using a f(2,3,4,5) by blast
  ultimately show ?thesis by simp
qed

section \<open>Range validation\<close>

lemma data_overflow_eq:
  assumes "config s = Some cfg"
    and "blk_get_info (blkdev cfg) (world s) = (bdi, w)"
  shows "data_overflow H s req =
           (if blk_num bdi < first_lba req + ucast (blk_cnt req)
            then Inr (True,
                   s\<lparr>world := w, calls := calls s @ [BlkGetInfo],
                     sense := sense_layout (sizeof_scsi_sense_response_t H)
                       (SCSI_SENSE_KEY_ILLEGAL_REQUEST H) (SCSI_ASENSE_LBA_OUT_OF_RANGE H)
                       (SCSI_ASENSEQ_NO_QUALIFIER H)\<rparr>)
            else Inr (False, s\<lparr>world := w, calls := calls s @ [BlkGetInfo]\<rparr>))"
  using assms by (simp add: data_overflow_def set_sense_eq)

text \<open>
  The comparison of \<^verbatim>\<open>data_overflow\<close> is a comparison of the sum modulo \<open>2 ^ 32\<close>; it is the
  comparison of the sum itself exactly when the sum fits 32 bits.
\<close>

lemma unat_ucast_u16: "unat (ucast x :: u32) = unat x" for x :: u16
proof -
  have "unat x < 2 ^ 16"
    using unsigned_less [of x, where ?'a = nat] by simp
  then have "unat x < 2 ^ 32" by simp
  then have "take_bit 32 (unat x) = unat x"
    by (simp only: take_bit_nat_eq_self_iff)
  then show ?thesis by (simp add: unsigned_ucast_eq)
qed

lemma data_overflow_compare:
  "blk_num bdi < first_lba req + ucast (blk_cnt req) \<longleftrightarrow>
     unat (blk_num bdi) < (unat (first_lba req) + unat (blk_cnt req)) mod 2 ^ 32"
  by (simp add: word_less_nat_alt unat_word_ariths unat_ucast_u16)

text \<open>
  Claim C1, at an input where the claim and the code part. The request asks for 2 blocks
  from block address 0xFFFFFFFF of a device with 1000 blocks: the sum of address and count
  is above the block count, but \<^verbatim>\<open>data_overflow\<close> adds in 32 bits, compares the wrapped sum
  1 with 1000, reports no overflow and leaves the sense structure as it was. The read
  command with these fields succeeds and reads the blocks 0xFFFFFFFF and 0.
\<close>

theorem data_overflow_wraps:
  "data_overflow scsi_h_std
       (stub_machine scsi_h_std (stub_config \<lparr>blk_size = 512, blk_num = 1000\<rparr> True 512 []))
       \<lparr>first_lba = 0xFFFFFFFF, blk_cnt = 2\<rparr>
     = Inr (False,
            (stub_machine scsi_h_std (stub_config \<lparr>blk_size = 512, blk_num = 1000\<rparr> True 512 []))
              \<lparr>calls := [BlkGetInfo]\<rparr>)
   \<and> unat (0xFFFFFFFF :: u32) + unat (2 :: u16) > unat (1000 :: u32)
   \<and> outcome_status (scsiExecCmd scsi_h_std
        (stub_machine scsi_h_std (stub_config \<lparr>blk_size = 512, blk_num = 1000\<rparr> True 512 []))
        [0x28, 0, 0xFF, 0xFF, 0xFF, 0xFF, 0, 0, 2, 0]) = Some SCSI_SUCCESS
   \<and> block_calls (outcome_calls (scsiExecCmd scsi_h_std
        (stub_machine scsi_h_std (stub_config \<lparr>blk_size = 512, blk_num = 1000\<rparr> True 512 []))
        [0x28, 0, 0xFF, 0xFF, 0xFF, 0xFF, 0, 0, 2, 0])) = [0xFFFFFFFF, 0]"
proof -
  let ?m = "stub_machine scsi_h_std (stub_config \<lparr>blk_size = 512, blk_num = 1000\<rparr> True 512 [])"
  have d: "decode_data_request [0x28, 0, 0xFF, 0xFF, 0xFF, 0xFF, 0, 0, 2, 0]
             = Inr \<lparr>first_lba = 0xFFFFFFFF, blk_cnt = 2\<rparr>"
    by (simp add: decode_data_request_def load_le32_def load_le16_def swap_uint32_def
        swap_uint16_def)
  have a: "data_overflow scsi_h_std ?m \<lparr>first_lba = 0xFFFFFFFF, blk_cnt = 2\<rparr>
             = Inr (False, ?m\<lparr>calls := [BlkGetInfo]\<rparr>)"
    by (simp add: data_overflow_def stub_defs)
  have e: "scsiExecCmd scsi_h_std ?m [0x28, 0, 0xFF, 0xFF, 0xFF, 0xFF, 0, 0, 2, 0]
             = Inr (SCSI_SUCCESS,
                    ?m\<lparr>sense := sense_layout 18 0 0 0,
                       calls := [BlkGetInfo, BlkGetInfo, BlkRead 0xFFFFFFFF 1, Transmit [] 512,
                                 BlkRead 0 1, Transmit [] 512]\<rparr>)"
    by (simp add: scsiExecCmd_def data_read_write10_def d data_overflow_def set_sense_ok_def
        set_sense_eq transfer_loop.simps transfer_block_def stub_defs)
  show ?thesis
    unfolding e a by (simp add: outcome_status_def outcome_calls_def)
qed

section \<open>Read capacity\<close>





section \<open>Inquiry\<close>

text \<open>
  Claim C8 as stated fails where the transport falls short: with both reserved fields zero
  and a transport that moves 10 of the 36 bytes, dispatch of the inquiry command does not
  succeed.
\<close>

theorem inquiry_short_transmit_fails:
  "outcome_status (scsiExecCmd scsi_h_std
      (stub_machine scsi_h_std (stub_config \<lparr>blk_size = 512, blk_num = 1000\<rparr> True 10 [7, 7, 7]))
      [0x12, 0, 0, 0, 36, 0]) \<noteq> Some SCSI_SUCCESS
   \<and> outcome_status (scsiExecCmd scsi_h_std
      (stub_machine scsi_h_std (stub_config \<lparr>blk_size = 512, blk_num = 1000\<rparr> True 10 [7, 7, 7]))
      [0x12, 0, 0, 0, 36, 0]) = Some SCSI_FAILED"
  by (simp add: outcome_status_def scsiExecCmd_def inquiry_def transmit_data_def
      set_sense_ok_def set_sense_eq stub_defs)

text \<open>
  Claim C8, amended. For every inquiry command: when one of the two low bits of byte 1 is
  set or byte 2 is not zero, dispatch fails, the sense structure is the layout for illegal
  request / invalid field and no call is made. When both are zero, dispatch makes exactly
  one transmit call, whose payload is the configured inquiry response and whose length is
  the size of the inquiry structure, and returns the status of the transmit wrapper:
  success when the transport moves the full length, failure with the shortfall in the
  residue field (and the success sense) otherwise.
\<close>

theorem inquiry_dispatch:
  assumes "config s = Some cfg"
    and "transmit (transport cfg) (world s) (inquiry_response cfg)
           (of_nat (sizeof_scsi_inquiry_response_t H)) = (sent, w)"
  shows "(c1 AND 3 \<noteq> 0 \<or> c2 \<noteq> 0 \<longrightarrow>
            scsiExecCmd H s (SCSI_CMD_INQUIRY H # c1 # c2 # rest) =
              Inr (SCSI_FAILED,
                   s\<lparr>sense := sense_layout (sizeof_scsi_sense_response_t H)
                     (SCSI_SENSE_KEY_ILLEGAL_REQUEST H) (SCSI_ASENSE_INVALID_FIELD_IN_CDB H)
                     (SCSI_ASENSEQ_NO_QUALIFIER H)\<rparr>))
       \<and> (c1 AND 3 = 0 \<and> c2 = 0 \<longrightarrow>
            scsiExecCmd H s (SCSI_CMD_INQUIRY H # c1 # c2 # rest) =
              (if sent = of_nat (sizeof_scsi_inquiry_response_t H)
               then Inr (SCSI_SUCCESS,
                      s\<lparr>sense := sense_layout (sizeof_scsi_sense_response_t H)
                          (SCSI_SENSE_KEY_GOOD H) (SCSI_ASENSE_NO_ADDITIONAL_INFORMATION H)
                          (SCSI_ASENSEQ_NO_QUALIFIER H),
                        world := w,
                        calls := calls s @ [Transmit (inquiry_response cfg)
                          (of_nat (sizeof_scsi_inquiry_response_t H))]\<rparr>)
               else Inr (SCSI_FAILED,
                      s\<lparr>sense := sense_layout (sizeof_scsi_sense_response_t H)
                          (SCSI_SENSE_KEY_GOOD H) (SCSI_ASENSE_NO_ADDITIONAL_INFORMATION H)
                          (SCSI_ASENSEQ_NO_QUALIFIER H),
                        world := w,
                        calls := calls s @ [Transmit (inquiry_response cfg)
                          (of_nat (sizeof_scsi_inquiry_response_t H))],
                        residue := of_nat (sizeof_scsi_inquiry_response_t H) - sent\<rparr>)))"
  using assms
  by (auto simp: scsiExecCmd_def inquiry_def transmit_data_def word_residue_pos
      set_sense_ok_def set_sense_eq Let_def)

theorem inquiry_dispatch_witness:
  "scsiExecCmd scsi_h_std
      (stub_machine scsi_h_std (stub_config \<lparr>blk_size = 512, blk_num = 1000\<rparr> True 64 [7, 7, 7]))
      [0x12, 1, 0, 0, 36, 0]
     = Inr (SCSI_FAILED,
            (stub_machine scsi_h_std (stub_config \<lparr>blk_size = 512, blk_num = 1000\<rparr> True 64 [7, 7, 7]))
              \<lparr>sense := sense_layout 18 5 0x24 0\<rparr>)
   \<and> scsiExecCmd scsi_h_std
      (stub_machine scsi_h_std (stub_config \<lparr>blk_size = 512, blk_num = 1000\<rparr> True 64 [7, 7, 7]))
      [0x12, 0, 0, 0, 36, 0]
     = Inr (SCSI_SUCCESS,
            (stub_machine scsi_h_std (stub_config \<lparr>blk_size = 512, blk_num = 1000\<rparr> True 64 [7, 7, 7]))
              \<lparr>sense := sense_layout 18 0 0 0, calls := [Transmit [7, 7, 7] 36]\<rparr>)"
  using
    inquiry_dispatch [of
      "stub_machine scsi_h_std (stub_config \<lparr>blk_size = 512, blk_num = 1000\<rparr> True 64 [7, 7, 7])"
      "stub_config \<lparr>blk_size = 512, blk_num = 1000\<rparr> True 64 [7, 7, 7]" scsi_h_std 36 "()"
      1 0 "[0, 36, 0]"]
    inquiry_dispatch [of
      "stub_machine scsi_h_std (stub_config \<lparr>blk_size = 512, blk_num = 1000\<rparr> True 64 [7, 7, 7])"
      "stub_config \<lparr>blk_size = 512, blk_num = 1000\<rparr> True 64 [7, 7, 7]" scsi_h_std 36 "()"
      0 0 "[0, 36, 0]"]
  by (simp add: stub_defs)

section \<open>Read and write\<close>

lemma decode_wire_fields:
  "decode_data_request (opcode # c1 # wire_be32 lba @ c6 # wire_be16 blk @ rest)
     = Inr \<lparr>first_lba = lba, blk_cnt = blk\<rparr>"
  using decode_wire [of opcode c1 lba c6 blk rest] by simp

lemma data_read_write10_overflow:
  assumes "config s = Some cfg"
    and "blk_get_info (blkdev cfg) (world s) = (bdi, w)"
    and "decode_data_request cmd = Inr req"
    and "blk_num bdi < first_lba req + ucast (blk_cnt req)"
  shows "data_read_write10 H s cmd =
           Inr (SCSI_FAILED,
                s\<lparr>world := w, calls := calls s @ [BlkGetInfo],
                  sense := sense_layout (sizeof_scsi_sense_response_t H)
                    (SCSI_SENSE_KEY_ILLEGAL_REQUEST H) (SCSI_ASENSE_LBA_OUT_OF_RANGE H)
                    (SCSI_ASENSEQ_NO_QUALIFIER H)\<rparr>)"
  using assms(3,4)
  by (simp add: data_read_write10_def data_overflow_eq [OF assms(1,2)])

text \<open>
  Claim C7 as stated fails on the geometry query: validation itself asks the block device
  for its geometry, so the failing dispatch has made one block-device call.
\<close>

theorem read_overflow_queries_geometry:
  "outcome_calls (scsiExecCmd scsi_h_std
      (stub_machine scsi_h_std (stub_config \<lparr>blk_size = 512, blk_num = 1\<rparr> True 512 []))
      [0x28, 0, 0, 0, 0, 0, 0, 0, 2, 0]) = [BlkGetInfo]
   \<and> \<not> (outcome_status (scsiExecCmd scsi_h_std
            (stub_machine scsi_h_std (stub_config \<lparr>blk_size = 512, blk_num = 1\<rparr> True 512 []))
            [0x28, 0, 0, 0, 0, 0, 0, 0, 2, 0]) = Some SCSI_FAILED
        \<and> outcome_calls (scsiExecCmd scsi_h_std
            (stub_machine scsi_h_std (stub_config \<lparr>blk_size = 512, blk_num = 1\<rparr> True 512 []))
            [0x28, 0, 0, 0, 0, 0, 0, 0, 2, 0])
          = calls (stub_machine scsi_h_std (stub_config \<lparr>blk_size = 512, blk_num = 1\<rparr> True 512 [])))"
proof -
  have d: "decode_data_request [0x28, 0, 0, 0, 0, 0, 0, 0, 2, 0]
             = Inr \<lparr>first_lba = 0, blk_cnt = 2\<rparr>"
    by (simp add: decode_data_request_def load_le32_def load_le16_def swap_uint32_def
        swap_uint16_def)
  have e: "outcome_calls (scsiExecCmd scsi_h_std
      (stub_machine scsi_h_std (stub_config \<lparr>blk_size = 512, blk_num = 1\<rparr> True 512 []))
      [0x28, 0, 0, 0, 0, 0, 0, 0, 2, 0]) = [BlkGetInfo]"
    by (simp add: outcome_calls_def scsiExecCmd_def data_read_write10_def d data_overflow_def
        set_sense_ok_def set_sense_eq stub_defs)
  show ?thesis unfolding e by (simp add: stub_defs)
qed

text \<open>
  Claim C7, amended. A read command for 2 blocks from block address 0, on a device whose
  geometry reports a block count of 1, fails in validation with the sense layout for
  illegal request / address out of range. The only call made before the failure is
  returned is the geometry query of the validation: no block is read or written and
  nothing is transmitted or received.
\<close>

theorem read_overflow_fails_before_io:
  assumes "header_ok H"
    and "config s = Some cfg"
    and "blk_get_info (blkdev cfg) (world s) = (bdi, w)"
    and "blk_num bdi = 1"
  shows "scsiExecCmd H s (SCSI_CMD_READ_10 H # c1 # wire_be32 0 @ c6 # wire_be16 2 @ rest) =
           Inr (SCSI_FAILED,
                s\<lparr>world := w, calls := calls s @ [BlkGetInfo],
                  sense := sense_layout (sizeof_scsi_sense_response_t H)
                    (SCSI_SENSE_KEY_ILLEGAL_REQUEST H) (SCSI_ASENSE_LBA_OUT_OF_RANGE H)
                    (SCSI_ASENSEQ_NO_QUALIFIER H)\<rparr>)"
proof -
  let ?cmd = "SCSI_CMD_READ_10 H # c1 # wire_be32 0 @ c6 # wire_be16 2 @ rest"
  let ?s0 = "set_sense_ok H s"
  have d: "SCSI_CMD_READ_10 H \<noteq> SCSI_CMD_INQUIRY H"
          "SCSI_CMD_READ_10 H \<noteq> SCSI_CMD_REQUEST_SENSE H"
          "SCSI_CMD_READ_10 H \<noteq> SCSI_CMD_READ_CAPACITY_10 H"
    using assms(1) by (auto simp: header_ok_def recognized_opcodes_def)
  have e: "scsiExecCmd H s ?cmd = data_read_write10 H ?s0 ?cmd"
    using d by (simp add: scsiExecCmd_def)
  have c: "config ?s0 = Some cfg" "blk_get_info (blkdev cfg) (world ?s0) = (bdi, w)"
    using assms(2,3) by (simp_all add: set_sense_ok_def set_sense_eq)
  have o: "blk_num bdi < first_lba \<lparr>first_lba = 0, blk_cnt = 2\<rparr>
             + ucast (blk_cnt \<lparr>first_lba = 0, blk_cnt = 2\<rparr>)"
    using assms(4) by simp
  show ?thesis
    unfolding e data_read_write10_overflow [OF c decode_wire_fields o]
    by (simp add: set_sense_ok_def set_sense_eq)
qed

theorem read_overflow_fails_before_io_witness:
  "header_ok scsi_h_std
   \<and> [0x28, 0] @ wire_be32 0 @ [0] @ wire_be16 2 @ [0] = [0x28, 0, 0, 0, 0, 0, 0, 0, 2, 0]
   \<and> scsiExecCmd scsi_h_std
      (stub_machine scsi_h_std (stub_config \<lparr>blk_size = 512, blk_num = 1\<rparr> True 512 []))
      [0x28, 0, 0, 0, 0, 0, 0, 0, 2, 0]
     = Inr (SCSI_FAILED,
            (stub_machine scsi_h_std (stub_config \<lparr>blk_size = 512, blk_num = 1\<rparr> True 512 []))
              \<lparr>calls := [BlkGetInfo], sense := sense_layout 18 5 0x21 0\<rparr>)"
proof -
  have a: "[0x28, 0] @ wire_be32 0 @ [0] @ wire_be16 2 @ [0] = [0x28, 0, 0, 0, 0, 0, 0, 0, 2, 0]"
    by (simp add: wire_be32_def wire_be16_def)
  have b: "scsiExecCmd scsi_h_std
      (stub_machine scsi_h_std (stub_config \<lparr>blk_size = 512, blk_num = 1\<rparr> True 512 []))
      [0x28, 0, 0, 0, 0, 0, 0, 0, 2, 0]
     = Inr (SCSI_FAILED,
            (stub_machine scsi_h_std (stub_config \<lparr>blk_size = 512, blk_num = 1\<rparr> True 512 []))
              \<lparr>calls := [BlkGetInfo], sense := sense_layout 18 5 0x21 0\<rparr>)"
    using read_overflow_fails_before_io [OF header_ok_std,
      of "stub_machine scsi_h_std (stub_config \<lparr>blk_size = 512, blk_num = 1\<rparr> True 512 [])"
         "stub_config \<lparr>blk_size = 512, blk_num = 1\<rparr> True 512 []"
         "\<lparr>blk_size = 512, blk_num = 1\<rparr>" "()" 0 0 "[0]"]
    by (simp add: stub_defs wire_be32_def wire_be16_def)
  show ?thesis by (intro conjI header_ok_std a b)
qed

section \<open>The transfer loop\<close>

lemma block_calls_append: "block_calls (xs @ ys) = block_calls xs @ block_calls ys"
  by (induction xs rule: block_calls.induct) simp_all

lemma transport_calls_append:
  "transport_calls (xs @ ys) = transport_calls xs + transport_calls ys"
  by (induction xs rule: transport_calls.induct) simp_all

lemma transfer_block_calls:
  "block_calls (calls (transfer_block H cfg cmd req bs i s))
     = block_calls (calls s) @ [first_lba req + of_nat i]"
  "transport_calls (calls (transfer_block H cfg cmd req bs i s))
     = Suc (transport_calls (calls s))"
  by (simp_all add: transfer_block_def Let_def block_calls_append transport_calls_append
      split: prod.splits)

lemma transfer_loop_calls:
  "block_calls (calls (transfer_loop H cfg cmd req bs i s))
     = block_calls (calls s) @ map (\<lambda>j. first_lba req + of_nat j) [i..<unat (blk_cnt req)]
   \<and> transport_calls (calls (transfer_loop H cfg cmd req bs i s))
     = transport_calls (calls s) + (unat (blk_cnt req) - i)"
proof (induction H cfg cmd req bs i s rule: transfer_loop.induct)
  case (1 H cfg cmd req bs i s)
  show ?case
  proof (cases "i < unat (blk_cnt req)")
    case True
    have step: "transfer_loop H cfg cmd req bs i s
                  = transfer_loop H cfg cmd req bs (Suc i) (transfer_block H cfg cmd req bs i s)"
      using True by (simp add: transfer_loop.simps [of H cfg cmd req bs i s])
    have more: "unat (blk_cnt req) - i = Suc (unat (blk_cnt req) - Suc i)"
      using True by simp
    show ?thesis
      unfolding step
      using "1.IH" [OF True]
      by (simp add: transfer_block_calls upt_conv_Cons [OF True] more)
  next
    case False
    then show ?thesis
      by (simp add: transfer_loop.simps [of H cfg cmd req bs i s])
  qed
qed

text \<open>
  Claim C9. A read or write command whose request passes \<^verbatim>\<open>data_overflow\<close> returns
  \<^verbatim>\<open>SCSI_SUCCESS\<close>, whatever the block device and the transport return from their calls.
  The loop has run once for each of the \<^verbatim>\<open>blk_cnt\<close> blocks: the block-device transfers
  made are those at the addresses \<^verbatim>\<open>first_lba + i\<close> for \<open>i\<close> from 0 to \<^verbatim>\<open>blk_cnt - 1\<close>, in
  this order, and the transport has been called \<^verbatim>\<open>blk_cnt\<close> times.
\<close>

theorem transfer_always_succeeds:
  assumes "decode_data_request cmd = Inr req"
    and "data_overflow H s req = Inr (False, s1)"
  shows "\<exists>s'. data_read_write10 H s cmd = Inr (SCSI_SUCCESS, s')
           \<and> block_calls (calls s')
               = block_calls (calls s)
                   @ map (\<lambda>i. first_lba req + of_nat i) [0..<unat (blk_cnt req)]
           \<and> transport_calls (calls s') = transport_calls (calls s) + unat (blk_cnt req)"
proof -
  from assms(2) obtain cfg where cfg: "config s = Some cfg"
    by (cases "config s") (simp_all add: data_overflow_def)
  obtain bdi w where g: "blk_get_info (blkdev cfg) (world s) = (bdi, w)"
    by (cases "blk_get_info (blkdev cfg) (world s)")
  from assms(2) have s1: "s1 = s\<lparr>world := w, calls := calls s @ [BlkGetInfo]\<rparr>"
    by (simp add: data_overflow_eq [OF cfg g] split: if_splits)
  obtain bdi2 w2 where g2: "blk_get_info (blkdev cfg) w = (bdi2, w2)"
    by (cases "blk_get_info (blkdev cfg) w")
  let ?s2 = "s\<lparr>world := w2, calls := calls s @ [BlkGetInfo, BlkGetInfo]\<rparr>"
  have r: "data_read_write10 H s cmd
             = Inr (SCSI_SUCCESS, transfer_loop H cfg cmd req (blk_size bdi2) 0 ?s2)"
    using assms cfg g2 by (simp add: data_read_write10_def s1)
  show ?thesis
    unfolding r
    using transfer_loop_calls [of H cfg cmd req "blk_size bdi2" 0 ?s2]
    by (simp add: block_calls_append transport_calls_append)
qed

theorem transfer_always_succeeds_witness:
  "decode_data_request [0x28, 0, 0, 0, 0, 5, 0, 0, 3, 0] = Inr \<lparr>first_lba = 5, blk_cnt = 3\<rparr>
   \<and> data_overflow scsi_h_std
        (stub_machine scsi_h_std (stub_config \<lparr>blk_size = 512, blk_num = 1000\<rparr> False 0 []))
        \<lparr>first_lba = 5, blk_cnt = 3\<rparr>
      = Inr (False,
             (stub_machine scsi_h_std (stub_config \<lparr>blk_size = 512, blk_num = 1000\<rparr> False 0 []))
               \<lparr>calls := [BlkGetInfo]\<rparr>)
   \<and> (\<exists>s'. data_read_write10 scsi_h_std
        (stub_machine scsi_h_std (stub_config \<lparr>blk_size = 512, blk_num = 1000\<rparr> False 0 []))
        [0x28, 0, 0, 0, 0, 5, 0, 0, 3, 0] = Inr (SCSI_SUCCESS, s')
      \<and> block_calls (calls s') = [5, 6, 7]
      \<and> transport_calls (calls s') = 3)"
proof -
  let ?m = "stub_machine scsi_h_std (stub_config \<lparr>blk_size = 512, blk_num = 1000\<rparr> False 0 [])"
  have d: "decode_data_request [0x28, 0, 0, 0, 0, 5, 0, 0, 3, 0]
             = Inr \<lparr>first_lba = 5, blk_cnt = 3\<rparr>"
    by (simp add: decode_data_request_def load_le32_def load_le16_def swap_uint32_def
        swap_uint16_def)
  have a: "data_overflow scsi_h_std ?m \<lparr>first_lba = 5, blk_cnt = 3\<rparr>
             = Inr (False, ?m\<lparr>calls := [BlkGetInfo]\<rparr>)"
    by (simp add: data_overflow_def stub_defs)
  have c: "calls ?m = []"
    by (simp add: stub_defs)
  have u: "map (\<lambda>i. (5::u32) + of_nat i) [0..<3] = [5, 6, 7]"
    by (simp add: upt_rec)
  have b: "\<exists>s'. data_read_write10 scsi_h_std ?m [0x28, 0, 0, 0, 0, 5, 0, 0, 3, 0]
                  = Inr (SCSI_SUCCESS, s')
      \<and> block_calls (calls s') = [5, 6, 7]
      \<and> transport_calls (calls s') = 3"
    using transfer_always_succeeds [OF d a] by (simp add: c u)
  show ?thesis by (intro conjI d a b)
qed

section \<open>Failure and the sense state\<close>

lemma inquiry_failed:
  assumes "inquiry H s cmd = Inr (SCSI_FAILED, s')"
  shows "sense s' = sense_layout (sizeof_scsi_sense_response_t H)
                      (SCSI_SENSE_KEY_ILLEGAL_REQUEST H) (SCSI_ASENSE_INVALID_FIELD_IN_CDB H)
                      (SCSI_ASENSEQ_NO_QUALIFIER H)
         \<or> (sense s' = sense s
             \<and> (\<exists>cfg mid data len sent w0.
                   config s = Some cfg
                 \<and> calls s' = calls s @ mid @ [Transmit data len]
                 \<and> transmit (transport cfg) w0 data len = (sent, world s')
                 \<and> sent \<noteq> len \<and> residue s' = len - sent \<and> 0 < residue s'))"
proof (cases "sense s' = sense_layout (sizeof_scsi_sense_response_t H)
                      (SCSI_SENSE_KEY_ILLEGAL_REQUEST H) (SCSI_ASENSE_INVALID_FIELD_IN_CDB H)
                      (SCSI_ASENSEQ_NO_QUALIFIER H)")
  case True
  then show ?thesis by simp
next
  case False
  with assms have "transmit_data s (inquiry_response (the (config s)))
                     (of_nat (sizeof_scsi_inquiry_response_t H)) = Inr (SCSI_FAILED, s')"
    by (auto simp: inquiry_def Let_def set_sense_eq split: if_splits option.splits)
  from transmit_data_shortfall [OF this, of s "[]"] show ?thesis by simp
qed

lemma request_sense_failed:
  assumes "request_sense H s cmd = Inr (SCSI_FAILED, s')"
  shows "sense s' = sense_layout (sizeof_scsi_sense_response_t H)
                      (SCSI_SENSE_KEY_ILLEGAL_REQUEST H) (SCSI_ASENSE_INVALID_FIELD_IN_CDB H)
                      (SCSI_ASENSEQ_NO_QUALIFIER H)
         \<or> (sense s' = sense s
             \<and> (\<exists>cfg mid data len sent w0.
                   config s = Some cfg
                 \<and> calls s' = calls s @ mid @ [Transmit data len]
                 \<and> transmit (transport cfg) w0 data len = (sent, world s')
                 \<and> sent \<noteq> len \<and> residue s' = len - sent \<and> 0 < residue s'))"
proof (cases "sense s' = sense_layout (sizeof_scsi_sense_response_t H)
                      (SCSI_SENSE_KEY_ILLEGAL_REQUEST H) (SCSI_ASENSE_INVALID_FIELD_IN_CDB H)
                      (SCSI_ASENSEQ_NO_QUALIFIER H)")
  case True
  then show ?thesis by simp
next
  case False
  with assms have "transmit_data s (sense s)
                     (of_nat (sizeof_scsi_sense_response_t H)) = Inr (SCSI_FAILED, s')"
    by (auto simp: request_sense_def Let_def set_sense_eq split: if_splits)
  from transmit_data_shortfall [OF this, of s "[]"] show ?thesis by simp
qed

lemma mode_sense6_failed:
  assumes "mode_sense6 H s cmd = Inr (SCSI_FAILED, s')"
  shows "sense s' = sense s
       \<and> (\<exists>cfg mid data len sent w0.
             config s = Some cfg
           \<and> calls s' = calls s @ mid @ [Transmit data len]
           \<and> transmit (transport cfg) w0 data len = (sent, world s')
           \<and> sent \<noteq> len \<and> residue s' = len - sent \<and> 0 < residue s')"
proof -
  from assms obtain t data len where t:
    "transmit_data t data len = Inr (SCSI_FAILED, s')"
    "config t = config s" "sense t = sense s" "calls t = calls s @ [BlkIsWriteProtected]"
    by (auto simp: mode_sense6_def Let_def split: if_splits option.splits prod.splits)
  from transmit_data_shortfall [OF t] show ?thesis .
qed

lemma read_capacity10_failed:
  assumes "read_capacity10 H s cmd = Inr (SCSI_FAILED, s')"
  shows "sense s' = sense s
       \<and> (\<exists>cfg mid data len sent w0.
             config s = Some cfg
           \<and> calls s' = calls s @ mid @ [Transmit data len]
           \<and> transmit (transport cfg) w0 data len = (sent, world s')
           \<and> sent \<noteq> len \<and> residue s' = len - sent \<and> 0 < residue s')"
proof -
  from assms obtain t data len where t:
    "transmit_data t data len = Inr (SCSI_FAILED, s')"
    "config t = config s" "sense t = sense s" "calls t = calls s @ [BlkGetInfo]"
    by (auto simp: read_capacity10_def Let_def split: option.splits prod.splits)
  from transmit_data_shortfall [OF t] show ?thesis .
qed

lemma data_read_write10_failed:
  assumes "data_read_write10 H s cmd = Inr (SCSI_FAILED, s')"
  shows "sense s' = sense_layout (sizeof_scsi_sense_response_t H)
                      (SCSI_SENSE_KEY_ILLEGAL_REQUEST H) (SCSI_ASENSE_LBA_OUT_OF_RANGE H)
                      (SCSI_ASENSEQ_NO_QUALIFIER H)"
  using assms
  by (auto simp: data_read_write10_def data_overflow_def Let_def set_sense_eq
      split: sum.splits option.splits prod.splits if_splits)

text \<open>
  Claim C2 as stated fails where the transport falls short: the read-capacity command on a
  transport that moves 4 of the 8 bytes returns failure, and the sense condition is still
  the success triple that \<^verbatim>\<open>scsiExecCmd\<close> wrote on entry.
\<close>

theorem short_transmit_keeps_success_sense:
  "outcome_status (scsiExecCmd scsi_h_std
      (stub_machine scsi_h_std (stub_config \<lparr>blk_size = 512, blk_num = 1000\<rparr> True 4 []))
      [0x25, 0, 0, 0, 0, 0, 0, 0, 0, 0]) = Some SCSI_FAILED
   \<and> \<not> sense_condition (outcome_sense (scsiExecCmd scsi_h_std
      (stub_machine scsi_h_std (stub_config \<lparr>blk_size = 512, blk_num = 1000\<rparr> True 4 []))
      [0x25, 0, 0, 0, 0, 0, 0, 0, 0, 0])) \<noteq> sense_ok scsi_h_std"
  by (simp add: outcome_status_def outcome_sense_def scsiExecCmd_def read_capacity10_def
      transmit_data_def sizeof_scsi_read_capacity10_response_t_def set_sense_ok_def set_sense_eq
      sense_layout_18 sense_condition_def sense_ok_def stub_defs)

text \<open>
  Claim C2, amended. Whenever \<^verbatim>\<open>scsiExecCmd\<close> returns failure, one of two things has
  happened in that dispatch. Either a handler has set an illegal-request sense condition,
  which differs from the success triple. Or the sense condition is the success triple and
  the failure is a shortfall of the transport: the last call of the dispatch is a transmit
  of \<open>len\<close> bytes from which the transport returned a count \<open>sent\<close> other than \<open>len\<close>, and
  the residue field holds the shortfall \<open>len - sent\<close>, which is greater than zero.
\<close>

theorem failure_sense_or_residue:
  assumes "header_ok H"
    and "SCSI_SENSE_KEY_ILLEGAL_REQUEST H \<noteq> SCSI_SENSE_KEY_GOOD H"
    and "scsiExecCmd H s cmd = Inr (SCSI_FAILED, s')"
  shows "(fst (sense_condition (sense s')) = SCSI_SENSE_KEY_ILLEGAL_REQUEST H
            \<and> sense_condition (sense s') \<noteq> sense_ok H)
       \<or> (sense_condition (sense s') = sense_ok H
            \<and> (\<exists>cfg mid data len sent w0.
                  config s = Some cfg
                \<and> calls s' = calls s @ mid @ [Transmit data len]
                \<and> transmit (transport cfg) w0 data len = (sent, world s')
                \<and> sent \<noteq> len \<and> residue s' = len - sent \<and> 0 < residue s'))"
proof -
  let ?n = "sizeof_scsi_sense_response_t H"
  let ?s0 = "set_sense_ok H s"
  have n: "14 \<le> ?n"
    using assms(1) by (simp add: header_ok_def)
  have ok: "sense_condition (sense ?s0) = sense_ok H"
    by (simp add: set_sense_ok_def set_sense_eq sense_condition_layout [OF n] sense_ok_def)
  have c: "config ?s0 = config s" "calls ?s0 = calls s"
    by (simp_all add: set_sense_ok_def set_sense_eq)
  have illegal: ?thesis
    if "sense s' = sense_layout ?n (SCSI_SENSE_KEY_ILLEGAL_REQUEST H) c
                     (SCSI_ASENSEQ_NO_QUALIFIER H)" for c
    using that assms(2) by (simp add: sense_condition_layout [OF n] sense_ok_def)
  have short: ?thesis
    if "sense s' = sense ?s0
       \<and> (\<exists>cfg mid data len sent w0.
             config ?s0 = Some cfg
           \<and> calls s' = calls ?s0 @ mid @ [Transmit data len]
           \<and> transmit (transport cfg) w0 data len = (sent, world s')
           \<and> sent \<noteq> len \<and> residue s' = len - sent \<and> 0 < residue s')"
    using that ok unfolding c by simp
  from assms(3) obtain opcode rest where cmd: "cmd = opcode # rest"
    by (cases cmd) (simp_all add: scsiExecCmd_def)
  from assms(3) consider
      (inq) "inquiry H ?s0 cmd = Inr (SCSI_FAILED, s')"
    | (rqs) "request_sense H ?s0 cmd = Inr (SCSI_FAILED, s')"
    | (cap) "read_capacity10 H ?s0 cmd = Inr (SCSI_FAILED, s')"
    | (rdw) "data_read_write10 H ?s0 cmd = Inr (SCSI_FAILED, s')"
    | (ign) "cmd_ignored H ?s0 cmd = Inr (SCSI_FAILED, s')"
    | (mds) "mode_sense6 H ?s0 cmd = Inr (SCSI_FAILED, s')"
    | (unh) "cmd_unhandled H ?s0 cmd = Inr (SCSI_FAILED, s')"
    unfolding cmd by (simp add: scsiExecCmd_def Let_def split: if_splits)
  then show ?thesis
  proof cases
    case inq
    from inquiry_failed [OF inq] show ?thesis
    proof
      assume "sense s' = sense_layout ?n (SCSI_SENSE_KEY_ILLEGAL_REQUEST H)
                (SCSI_ASENSE_INVALID_FIELD_IN_CDB H) (SCSI_ASENSEQ_NO_QUALIFIER H)"
      then show ?thesis by (rule illegal)
    next
      assume "sense s' = sense ?s0
       \<and> (\<exists>cfg mid data len sent w0.
             config ?s0 = Some cfg
           \<and> calls s' = calls ?s0 @ mid @ [Transmit data len]
           \<and> transmit (transport cfg) w0 data len = (sent, world s')
           \<and> sent \<noteq> len \<and> residue s' = len - sent \<and> 0 < residue s')"
      then show ?thesis by (rule short)
    qed
  next
    case rqs
    from request_sense_failed [OF rqs] show ?thesis
    proof
      assume "sense s' = sense_layout ?n (SCSI_SENSE_KEY_ILLEGAL_REQUEST H)
                (SCSI_ASENSE_INVALID_FIELD_IN_CDB H) (SCSI_ASENSEQ_NO_QUALIFIER H)"
      then show ?thesis by (rule illegal)
    next
      assume "sense s' = sense ?s0
       \<and> (\<exists>cfg mid data len sent w0.
             config ?s0 = Some cfg
           \<and> calls s' = calls ?s0 @ mid @ [Transmit data len]
           \<and> transmit (transport cfg) w0 data len = (sent, world s')
           \<and> sent \<noteq> len \<and> residue s' = len - sent \<and> 0 < residue s')"
      then show ?thesis by (rule short)
    qed
  next
    case cap
    from read_capacity10_failed [OF cap] show ?thesis
      by (rule short)
  next
    case rdw
    from data_read_write10_failed [OF rdw] show ?thesis
      by (rule illegal)
  next
    case ign
    then show ?thesis by (simp add: cmd_ignored_def)
  next
    case mds
    from mode_sense6_failed [OF mds] show ?thesis
      by (rule short)
  next
    case unh
    then have "sense s' = sense_layout ?n (SCSI_SENSE_KEY_ILLEGAL_REQUEST H)
                 (SCSI_ASENSE_INVALID_COMMAND H) (SCSI_ASENSEQ_NO_QUALIFIER H)"
      by (auto simp: cmd_unhandled_def set_sense_eq)
    then show ?thesis by (rule illegal)
  qed
qed

theorem failure_sense_or_residue_witness:
  "header_ok scsi_h_std
   \<and> SCSI_SENSE_KEY_ILLEGAL_REQUEST scsi_h_std \<noteq> SCSI_SENSE_KEY_GOOD scsi_h_std
   \<and> scsiExecCmd scsi_h_std
        (stub_machine scsi_h_std (stub_config \<lparr>blk_size = 512, blk_num = 1000\<rparr> True 4 []))
        [0x25, 0, 0, 0, 0, 0, 0, 0, 0, 0]
      = Inr (SCSI_FAILED,
             (stub_machine scsi_h_std (stub_config \<lparr>blk_size = 512, blk_num = 1000\<rparr> True 4 []))
               \<lparr>sense := sense_layout 18 0 0 0,
                calls := [BlkGetInfo, Transmit [0, 0, 0x03, 0xE7, 0, 0, 0x02, 0] 8],
                residue := 4\<rparr>)
   \<and> sense_condition (sense_layout 18 0 0 0) = sense_ok scsi_h_std
   \<and> scsiExecCmd scsi_h_std
        (stub_machine scsi_h_std (stub_config \<lparr>blk_size = 512, blk_num = 1000\<rparr> True 4 []))
        [0x12, 0, 1, 0, 36, 0]
      = Inr (SCSI_FAILED,
             (stub_machine scsi_h_std (stub_config \<lparr>blk_size = 512, blk_num = 1000\<rparr> True 4 []))
               \<lparr>sense := sense_layout 18 5 0x24 0\<rparr>)
   \<and> sense_condition (sense_layout 18 5 0x24 0) \<noteq> sense_ok scsi_h_std"
proof -
  let ?m = "stub_machine scsi_h_std (stub_config \<lparr>blk_size = 512, blk_num = 1000\<rparr> True 4 [])"
  have k: "SCSI_SENSE_KEY_ILLEGAL_REQUEST scsi_h_std \<noteq> SCSI_SENSE_KEY_GOOD scsi_h_std"
    by (simp add: scsi_h_std_def)
  have e1: "scsiExecCmd scsi_h_std ?m [0x25, 0, 0, 0, 0, 0, 0, 0, 0, 0]
      = Inr (SCSI_FAILED,
             ?m\<lparr>sense := sense_layout 18 0 0 0,
                calls := [BlkGetInfo, Transmit [0, 0, 0x03, 0xE7, 0, 0, 0x02, 0] 8],
                residue := 4\<rparr>)"
    by (simp add: scsiExecCmd_def read_capacity10_def transmit_data_def
        sizeof_scsi_read_capacity10_response_t_def set_sense_ok_def set_sense_eq
        scsi_read_capacity10_response_t_def store_le32_def swap_uint32_def stub_defs)
  have s1: "sense_condition (sense_layout 18 5 0x24 0) \<noteq> sense_ok scsi_h_std"
    by (simp add: sense_layout_18 sense_condition_def sense_ok_def scsi_h_std_def)
  have e2: "scsiExecCmd scsi_h_std ?m [0x12, 0, 1, 0, 36, 0]
      = Inr (SCSI_FAILED, ?m\<lparr>sense := sense_layout 18 5 0x24 0\<rparr>)"
    by (simp add: scsiExecCmd_def inquiry_def set_sense_ok_def set_sense_eq stub_defs)
  have s0: "fst (sense_condition (sense_layout 18 0 0 0))
               \<noteq> SCSI_SENSE_KEY_ILLEGAL_REQUEST scsi_h_std"
    by (simp add: sense_layout_18 sense_condition_def scsi_h_std_def)
  have c1: "sense_condition (sense_layout 18 0 0 0) = sense_ok scsi_h_std"
    using failure_sense_or_residue [OF header_ok_std k e1] s0 by auto
  have c2: "sense_condition (sense_layout 18 5 0x24 0) \<noteq> sense_ok scsi_h_std"
    using failure_sense_or_residue [OF header_ok_std k e2] s1 by auto
  show ?thesis by (intro conjI header_ok_std k e1 e2 c1 c2)
qed

section \<open>Request sense\<close>

text \<open>
  What the dispatch of a report-sense command with a zero reserved field and an allocation
  length equal to the size of the sense structure does, for every state of the engine
  before it. The check of the handler compares the 32-bit \<^verbatim>\<open>tmp\<close>, of which \<^verbatim>\<open>memcpy\<close> has
  set three bytes. When the byte left indeterminate is zero, the one call made is a
  transmit of the sense layout of the success condition, with the size of the sense
  structure as length; when it is not zero, the command is rejected with the sense layout
  for illegal request / invalid field and no call is made.
\<close>

lemma request_sense_dispatch:
  assumes "header_ok H"
    and "config s = Some cfg"
    and "unat c4 = sizeof_scsi_sense_response_t H"
  shows "(uninit_tmp s AND 0xFF000000 = 0 \<longrightarrow>
            (\<exists>st s'. scsiExecCmd H s (SCSI_CMD_REQUEST_SENSE H # 0 # 0 # 0 # c4 # rest)
                        = Inr (st, s')
               \<and> calls s' = calls s @
                   [Transmit (sense_layout (sizeof_scsi_sense_response_t H)
                                (SCSI_SENSE_KEY_GOOD H) (SCSI_ASENSE_NO_ADDITIONAL_INFORMATION H)
                                (SCSI_ASENSEQ_NO_QUALIFIER H))
                             (of_nat (sizeof_scsi_sense_response_t H))]))
       \<and> (uninit_tmp s AND 0xFF000000 \<noteq> 0 \<longrightarrow>
            scsiExecCmd H s (SCSI_CMD_REQUEST_SENSE H # 0 # 0 # 0 # c4 # rest)
              = Inr (SCSI_FAILED,
                     s\<lparr>sense := sense_layout (sizeof_scsi_sense_response_t H)
                       (SCSI_SENSE_KEY_ILLEGAL_REQUEST H) (SCSI_ASENSE_INVALID_FIELD_IN_CDB H)
                       (SCSI_ASENSEQ_NO_QUALIFIER H)\<rparr>))"
proof -
  let ?cmd = "SCSI_CMD_REQUEST_SENSE H # 0 # 0 # 0 # c4 # rest"
  let ?s0 = "set_sense_ok H s"
  let ?ok = "sense_layout (sizeof_scsi_sense_response_t H)
               (SCSI_SENSE_KEY_GOOD H) (SCSI_ASENSE_NO_ADDITIONAL_INFORMATION H)
               (SCSI_ASENSEQ_NO_QUALIFIER H)"
  have d: "SCSI_CMD_REQUEST_SENSE H \<noteq> SCSI_CMD_INQUIRY H"
    using assms(1) by (auto simp: header_ok_def recognized_opcodes_def)
  have e: "scsiExecCmd H s ?cmd = request_sense H ?s0 ?cmd"
    using d by (simp add: scsiExecCmd_def)
  have c: "config ?s0 = Some cfg" "calls ?s0 = calls s" "sense ?s0 = ?ok"
      "uninit_tmp ?s0 = uninit_tmp s"
    using assms(2) by (simp_all add: set_sense_ok_def set_sense_eq)
  have pass: "request_sense H ?s0 ?cmd
                = transmit_data ?s0 ?ok (of_nat (sizeof_scsi_sense_response_t H))"
    if "uninit_tmp s AND 0xFF000000 = 0"
    using that assms(3) by (simp add: request_sense_def c)
  have reject: "request_sense H ?s0 ?cmd
                = Inr (SCSI_FAILED,
                     s\<lparr>sense := sense_layout (sizeof_scsi_sense_response_t H)
                       (SCSI_SENSE_KEY_ILLEGAL_REQUEST H) (SCSI_ASENSE_INVALID_FIELD_IN_CDB H)
                       (SCSI_ASENSEQ_NO_QUALIFIER H)\<rparr>)"
    if "uninit_tmp s AND 0xFF000000 \<noteq> 0"
    using that by (simp add: request_sense_def c set_sense_ok_def set_sense_eq)
  show ?thesis
    unfolding e
    using transmit_data_calls [OF c(1), of ?ok "of_nat (sizeof_scsi_sense_response_t H)"]
      pass reject
    by (auto simp: c)
qed

text \<open>
  Claim C10, at an input where the claim and the code part. The command is the well-formed
  report-sense command \<open>03 00 00 00 12 00\<close> (zero reserved field, allocation length 18, the
  size of the sense structure), dispatched after a command that failed with illegal
  request / invalid command. \<^verbatim>\<open>request_sense\<close> declares \<^verbatim>\<open>uint32_t tmp\<close> without a value and
  copies three bytes into it, so the test \<^verbatim>\<open>tmp != 0\<close> also reads the fourth byte. Where
  that byte holds 0xAB the handler rejects the command: the dispatch returns \<^verbatim>\<open>SCSI_FAILED\<close>,
  the sense structure becomes illegal request / invalid field and nothing is handed to
  the transport. Where the byte holds 0 the same command in the same state transmits the
  success layout, as the claim says of every well-formed command.
\<close>

theorem request_sense_rejects_well_formed:
  "outcome_status (scsiExecCmd scsi_h_std
       ((stub_machine scsi_h_std (stub_config \<lparr>blk_size = 512, blk_num = 1000\<rparr> True 64 []))
          \<lparr>sense := sense_layout 18 5 0x20 0, uninit_tmp := 0xAB000000\<rparr>)
       [0x03, 0, 0, 0, 18, 0]) = Some SCSI_FAILED
   \<and> outcome_calls (scsiExecCmd scsi_h_std
       ((stub_machine scsi_h_std (stub_config \<lparr>blk_size = 512, blk_num = 1000\<rparr> True 64 []))
          \<lparr>sense := sense_layout 18 5 0x20 0, uninit_tmp := 0xAB000000\<rparr>)
       [0x03, 0, 0, 0, 18, 0]) = []
   \<and> outcome_sense (scsiExecCmd scsi_h_std
       ((stub_machine scsi_h_std (stub_config \<lparr>blk_size = 512, blk_num = 1000\<rparr> True 64 []))
          \<lparr>sense := sense_layout 18 5 0x20 0, uninit_tmp := 0xAB000000\<rparr>)
       [0x03, 0, 0, 0, 18, 0]) = [0x70, 0, 5, 0, 0, 0, 0, 8, 0, 0, 0, 0, 0x24, 0, 0, 0, 0, 0]
   \<and> outcome_status (scsiExecCmd scsi_h_std
       ((stub_machine scsi_h_std (stub_config \<lparr>blk_size = 512, blk_num = 1000\<rparr> True 64 []))
          \<lparr>sense := sense_layout 18 5 0x20 0, uninit_tmp := 0\<rparr>)
       [0x03, 0, 0, 0, 18, 0]) = Some SCSI_SUCCESS
   \<and> outcome_calls (scsiExecCmd scsi_h_std
       ((stub_machine scsi_h_std (stub_config \<lparr>blk_size = 512, blk_num = 1000\<rparr> True 64 []))
          \<lparr>sense := sense_layout 18 5 0x20 0, uninit_tmp := 0\<rparr>)
       [0x03, 0, 0, 0, 18, 0])
     = [Transmit [0x70, 0, 0, 0, 0, 0, 0, 8, 0, 0, 0, 0, 0, 0, 0, 0, 0, 0] 18]"
proof -
  let ?m = "(stub_machine scsi_h_std (stub_config \<lparr>blk_size = 512, blk_num = 1000\<rparr> True 64 []))
              \<lparr>sense := sense_layout 18 5 0x20 0\<rparr>"
  have bad: "scsiExecCmd scsi_h_std (?m\<lparr>uninit_tmp := 0xAB000000\<rparr>) [0x03, 0, 0, 0, 18, 0]
      = Inr (SCSI_FAILED,
             ?m\<lparr>uninit_tmp := 0xAB000000,
                sense := [0x70, 0, 5, 0, 0, 0, 0, 8, 0, 0, 0, 0, 0x24, 0, 0, 0, 0, 0]\<rparr>)"
    by (simp add: scsiExecCmd_def request_sense_def set_sense_ok_def set_sense_eq
        sense_layout_18 stub_defs)
  have good: "scsiExecCmd scsi_h_std (?m\<lparr>uninit_tmp := 0\<rparr>) [0x03, 0, 0, 0, 18, 0]
      = Inr (SCSI_SUCCESS,
             ?m\<lparr>uninit_tmp := 0,
                sense := [0x70, 0, 0, 0, 0, 0, 0, 8, 0, 0, 0, 0, 0, 0, 0, 0, 0, 0],
                calls := [Transmit [0x70, 0, 0, 0, 0, 0, 0, 8, 0, 0, 0, 0, 0, 0, 0, 0, 0, 0] 18]\<rparr>)"
    by (simp add: scsiExecCmd_def request_sense_def transmit_data_def set_sense_ok_def
        set_sense_eq sense_layout_18 stub_defs)
  show ?thesis
    using bad good
    by (simp add: outcome_status_def outcome_calls_def outcome_sense_def stub_defs)
qed


end
